theory Spec2Isabelle
  imports Complex_Main "HOL-Library.Word"
begin

unbundle bit_operations_syntax

section \<open>Host values\<close>

text \<open>
  A Ruby \<^verbatim>\<open>Float\<close> holds an IEEE-754 binary64 number. A finite one is kept as the pair
  of an integer mantissa and a binary exponent, \<open>Finite m e\<close> standing for \<open>m * 2^e\<close>;
  the sign of zero is not kept (no operation below depends on it).
\<close>

datatype rfloat = Finite int int | PosInf | NegInf | NaN

fun is_double :: "rfloat \<Rightarrow> bool" where
  "is_double (Finite m e) = (\<bar>m\<bar> < 2 ^ 53 \<and> - 1074 \<le> e \<and> e \<le> 971)"
| "is_double _ = True"

fun valof :: "rfloat \<Rightarrow> real" where
  "valof (Finite m e) = of_int m * 2 powi e"
| "valof _ = 0"

text \<open>
  A \<^verbatim>\<open>VALUE\<close> is a tagged host object. \<open>RInteger\<close> covers both representations of a
  Ruby Integer; \<^verbatim>\<open>FIXNUM_P\<close> tells the immediate ones (63 bits on LP64, the only
  data model with \<^verbatim>\<open>sys/epoll.h\<close> considered here) from the heap-allocated ones.
\<close>

datatype VALUE = Qnil | Qtrue | Qfalse | RInteger int | RFloat rfloat | RString string | RObject nat

fun FIXNUM_P :: "VALUE \<Rightarrow> bool" where
  "FIXNUM_P (RInteger n) = (- (2 ^ 62) \<le> n \<and> n < 2 ^ 62)"
| "FIXNUM_P _ = False"

fun RB_FLOAT_TYPE_P :: "VALUE \<Rightarrow> bool" where
  "RB_FLOAT_TYPE_P (RFloat f) = True"
| "RB_FLOAT_TYPE_P _ = False"

text \<open>\<^verbatim>\<open>NUM2LONG\<close> on a fixnum: the 64-bit \<^verbatim>\<open>long\<close> holding it.\<close>

fun NUM2LONG_fixnum :: "VALUE \<Rightarrow> 64 word" where
  "NUM2LONG_fixnum (RInteger n) = word_of_int n"
| "NUM2LONG_fixnum _ = 0"

fun RFLOAT_VALUE :: "VALUE \<Rightarrow> rfloat" where
  "RFLOAT_VALUE (RFloat f) = f"
| "RFLOAT_VALUE _ = NaN"

section \<open>Errors\<close>

datatype errno = EBADF | EEXIST | EINTR | EINVAL | EMFILE | ENFILE | ENOMEM | ENOSPC | EPERM

text \<open>
  \<open>SystemCallFailure\<close> is what \<^verbatim>\<open>rb_sys_fail\<close> raises: the name passed to it and the
  current \<^verbatim>\<open>errno\<close>. \<open>HostException\<close> is an exception raised by host code that the
  backend calls into. \<open>UndefinedBehaviour\<close> marks an execution for which C defines no
  result, and \<open>NeverReturns\<close> a call that blocks for ever.
\<close>

datatype error =
    SystemCallFailure string errno
  | RuntimeError string
  | RangeError
  | TypeError
  | HostException nat
  | UndefinedBehaviour
  | NeverReturns

section \<open>Timeout codec\<close>

text \<open>
  \<^verbatim>\<open>value * 1000\<close> is a binary64 multiplication: the exact product is rounded to 53
  significant bits, ties to even, and overflows to an infinity from \<open>2^1024\<close> on.
  A product of a binary64 number with 1000 never falls below the exponent \<open>-1074\<close>,
  so no further rounding happens at the subnormal end.
\<close>

function bit_length :: "int \<Rightarrow> nat" where
  "bit_length n = (if n \<le> 0 then 0 else Suc (bit_length (n div 2)))"
  by pat_completeness auto
termination
  by (relation "measure nat") auto

declare bit_length.simps [simp del]

definition to_binary64 :: "int \<Rightarrow> int \<Rightarrow> rfloat" where
  "to_binary64 m e =
     (if 1024 < int (bit_length \<bar>m\<bar>) + e then (if 0 < m then PosInf else NegInf)
      else Finite m e)"

definition round_to_double :: "int \<Rightarrow> int \<Rightarrow> rfloat" where
  "round_to_double m e =
     (let a = \<bar>m\<bar>; n = bit_length a
      in if n \<le> 53 then to_binary64 m e
         else let k = n - 53;
                  q = a div 2 ^ k;
                  r = a mod 2 ^ k;
                  q' = (if 2 ^ (k - 1) < r \<or> (r = 2 ^ (k - 1) \<and> odd q) then q + 1 else q)
              in to_binary64 (sgn m * q') (e + int k))"

fun double_mul_1000 :: "rfloat \<Rightarrow> rfloat" where
  "double_mul_1000 (Finite m e) = round_to_double (m * 1000) e"
| "double_mul_1000 PosInf = PosInf"
| "double_mul_1000 NegInf = NegInf"
| "double_mul_1000 NaN = NaN"

text \<open>
  Conversion of a \<^verbatim>\<open>double\<close> to \<^verbatim>\<open>int\<close> discards the fractional part (C11 6.3.1.4);
  when the integral part does not fit \<^verbatim>\<open>int\<close> the behaviour is undefined.
\<close>

definition truncate_toward_zero :: "int \<Rightarrow> int \<Rightarrow> int" where
  "truncate_toward_zero m e =
     (if 0 \<le> e then m * 2 ^ nat e else sgn m * (\<bar>m\<bar> div 2 ^ nat (- e)))"

fun double_to_int :: "rfloat \<Rightarrow> error + 32 word" where
  "double_to_int (Finite m e) =
     (let t = truncate_toward_zero m e
      in if - (2 ^ 31) \<le> t \<and> t < 2 ^ 31 then Inr (word_of_int t) else Inl UndefinedBehaviour)"
| "double_to_int _ = Inl UndefinedBehaviour"

text \<open>
  \<^verbatim>\<open>make_timeout\<close> (epoll.c, lines 148-165). The fixnum branch multiplies in
  \<^verbatim>\<open>long\<close> and the \<^verbatim>\<open>return\<close> converts to \<^verbatim>\<open>int\<close>, which keeps the low 32 bits.
  A wrapped 64-bit product has the same low 32 bits as the exact one.
\<close>

definition make_timeout :: "VALUE \<Rightarrow> error + 32 word" where
  "make_timeout duration =
     (if duration = Qnil then Inr (- 1)
      else if FIXNUM_P duration then Inr (ucast (NUM2LONG_fixnum duration * 1000))
      else if RB_FLOAT_TYPE_P duration then double_to_int (double_mul_1000 (RFLOAT_VALUE duration))
      else Inl (RuntimeError ''unable to convert timeout''))"

text \<open>The value of the \<^verbatim>\<open>int\<close> that \<^verbatim>\<open>make_timeout\<close> returns, read as two's complement.\<close>

definition timeout_ms :: "VALUE \<Rightarrow> error + int" where
  "timeout_ms duration = map_sum id sint (make_timeout duration)"

section \<open>Conversions of the host API\<close>

text \<open>
  \<^verbatim>\<open>NUM2INT\<close>: an Integer inside the range of \<^verbatim>\<open>int\<close> converts to itself, a Float to
  its integral part; anything out of range raises \<^verbatim>\<open>RangeError\<close>, and an object that is
  not numeric raises \<^verbatim>\<open>TypeError\<close> (objects that define \<^verbatim>\<open>to_int\<close> are not modelled).
\<close>

definition in_int_range :: "int \<Rightarrow> bool" where
  "in_int_range n = (- (2 ^ 31) \<le> n \<and> n < 2 ^ 31)"

fun NUM2INT :: "VALUE \<Rightarrow> error + int" where
  "NUM2INT (RInteger n) = (if in_int_range n then Inr n else Inl RangeError)"
| "NUM2INT (RFloat (Finite m e)) =
     (if in_int_range (truncate_toward_zero m e) then Inr (truncate_toward_zero m e)
      else Inl RangeError)"
| "NUM2INT (RFloat _) = Inl RangeError"
| "NUM2INT _ = Inl TypeError"

definition INT2NUM :: "int \<Rightarrow> VALUE" where
  "INT2NUM n = RInteger n"

section \<open>Process environment\<close>

text \<open>
  The constants of \<^verbatim>\<open>sys/epoll.h\<close> on Linux, and those of epoll.c (lines 30-32).
\<close>

definition EPOLLIN :: "32 word" where "EPOLLIN = 0x001"
definition EPOLLPRI :: "32 word" where "EPOLLPRI = 0x002"
definition EPOLLOUT :: "32 word" where "EPOLLOUT = 0x004"
definition EPOLLRDHUP :: "32 word" where "EPOLLRDHUP = 0x2000"
definition EPOLLONESHOT :: "32 word" where "EPOLLONESHOT = 0x40000000"

definition READABLE :: int where "READABLE = 1"
definition PRIORITY :: int where "PRIORITY = 2"
definition WRITABLE :: int where "WRITABLE = 4"

definition EPOLL_MAX_EVENTS :: int where "EPOLL_MAX_EVENTS = 1024"

text \<open>
  An open file description is an epoll instance or anything else; several descriptor
  numbers may refer to one description (\<^verbatim>\<open>dup\<close>).
\<close>

datatype ofd = Queue nat | Stream nat

record epoll_event =
  events :: "32 word"
  data_ptr :: VALUE

datatype call =
    Epoll_create int
  | Epoll_ctl_add int int epoll_event
  | Epoll_wait int int int
  | Dup int
  | Close int
  | Transfer VALUE

record Event_Backend_EPoll =
  loop :: VALUE
  descriptor :: int

text \<open>
  The state threaded through every operation: the backend struct behind \<^verbatim>\<open>self\<close>, and
  the part of the process and of the kernel that the backend talks to.
  \<^item> \<open>fds\<close>: the descriptor table; \<open>interest\<close>: the registrations of every epoll
    instance, keyed by instance, descriptor number and file description (an entry stays
    until its file description is closed, one-shot delivery only disarms it);
  \<^item> \<open>ready\<close>: for each instance, the entries the kernel will deliver next, in order;
  \<^item> \<open>faults\<close>: what the kernel refuses for reasons outside this model (limits,
    memory, signals): each system call that can fail so takes the head of the list;
  \<^item> \<open>fileno_of\<close>, \<open>transfer_outcome\<close>: what host code answers when called;
  \<^item> \<open>trace\<close>: every call that left the backend, oldest first.
\<close>

record state =
  data :: Event_Backend_EPoll
  fds :: "(int \<times> ofd) list"
  interest :: "((nat \<times> int \<times> ofd) \<times> epoll_event) list"
  ready :: "nat \<Rightarrow> epoll_event list"
  next_queue :: nat
  faults :: "errno option list"
  errno :: errno
  max_fd :: int
  fileno_of :: "VALUE \<Rightarrow> error + VALUE"
  transfer_outcome :: "VALUE \<Rightarrow> error option"
  trace :: "call list"

definition injected :: "state \<Rightarrow> errno option" where
  "injected s = (case faults s of [] \<Rightarrow> None | f # _ \<Rightarrow> f)"

definition entered :: "call \<Rightarrow> state \<Rightarrow> state" where
  "entered c s = s\<lparr>faults := tl (faults s), trace := trace s @ [c]\<rparr>"

definition fails :: "errno \<Rightarrow> state \<Rightarrow> int \<times> state" where
  "fails e s = (- 1, s\<lparr>errno := e\<rparr>)"

definition lowest_unused :: "(int \<times> ofd) list \<Rightarrow> int option" where
  "lowest_unused tab = List.find (\<lambda>n. map_of tab n = None) (map int [0..<Suc (length tab)])"

definition epoll_create :: "int \<Rightarrow> state \<Rightarrow> int \<times> state" where
  "epoll_create sz s =
     (let s' = entered (Epoll_create sz) s
      in case injected s of
           Some e \<Rightarrow> fails e s'
         | None \<Rightarrow>
             if sz \<le> 0 then fails EINVAL s'
             else (case lowest_unused (fds s) of
                     None \<Rightarrow> fails EMFILE s'
                   | Some fd \<Rightarrow>
                       (fd, s'\<lparr>fds := (fd, Queue (next_queue s)) # fds s,
                                next_queue := Suc (next_queue s)\<rparr>)))"

definition epoll_ctl_ADD :: "int \<Rightarrow> int \<Rightarrow> epoll_event \<Rightarrow> state \<Rightarrow> int \<times> state" where
  "epoll_ctl_ADD epfd fd event s =
     (let s' = entered (Epoll_ctl_add epfd fd event) s
      in case injected s of
           Some e \<Rightarrow> fails e s'
         | None \<Rightarrow>
             (case map_of (fds s) fd of
                None \<Rightarrow> fails EBADF s'
              | Some f \<Rightarrow>
                  (case map_of (fds s) epfd of
                     None \<Rightarrow> fails EBADF s'
                   | Some (Stream _) \<Rightarrow> fails EINVAL s'
                   | Some (Queue q) \<Rightarrow>
                       if f = Queue q then fails EINVAL s'
                       else if map_of (interest s) (q, fd, f) \<noteq> None then fails EEXIST s'
                       else (0, s'\<lparr>interest := ((q, fd, f), event) # interest s\<rparr>))))"

definition dup :: "int \<Rightarrow> state \<Rightarrow> int \<times> state" where
  "dup oldfd s =
     (let s' = entered (Dup oldfd) s
      in case injected s of
           Some e \<Rightarrow> fails e s'
         | None \<Rightarrow>
             (case map_of (fds s) oldfd of
                None \<Rightarrow> fails EBADF s'
              | Some f \<Rightarrow>
                  (case lowest_unused (fds s) of
                     None \<Rightarrow> fails EMFILE s'
                   | Some fd \<Rightarrow> (fd, s'\<lparr>fds := (fd, f) # fds s\<rparr>))))"

text \<open>
  \<^verbatim>\<open>close\<close> releases the number; when it was the last one of its file description, the
  description goes, with every registration of it and, for an epoll instance, every
  registration in it.
\<close>

definition close :: "int \<Rightarrow> state \<Rightarrow> int \<times> state" where
  "close fd s =
     (let s' = s\<lparr>trace := trace s @ [Close fd]\<rparr>
      in case map_of (fds s) fd of
           None \<Rightarrow> fails EBADF s'
         | Some f \<Rightarrow>
             (let tab = filter (\<lambda>(k, _). k \<noteq> fd) (fds s)
              in (0, s'\<lparr>fds := tab,
                        interest :=
                          (if f \<in> snd ` set tab then interest s
                           else filter (\<lambda>((q, _, g), _). g \<noteq> f \<and> Queue q \<noteq> f) (interest s))\<rparr>)))"

text \<open>
  \<^verbatim>\<open>epoll_wait\<close> answers \<open>None\<close> when it blocks for ever (nothing ready and a negative
  timeout), otherwise the count and the filled part of the array.
\<close>

definition epoll_wait :: "int \<Rightarrow> int \<Rightarrow> 32 word \<Rightarrow> state \<Rightarrow> (int \<times> epoll_event list) option \<times> state" where
  "epoll_wait epfd maxevents timeout s =
     (let s' = entered (Epoll_wait epfd maxevents (sint timeout)) s
      in case injected s of
           Some e \<Rightarrow> (Some (- 1, []), s'\<lparr>errno := e\<rparr>)
         | None \<Rightarrow>
             (case map_of (fds s) epfd of
                None \<Rightarrow> (Some (- 1, []), s'\<lparr>errno := EBADF\<rparr>)
              | Some (Stream _) \<Rightarrow> (Some (- 1, []), s'\<lparr>errno := EINVAL\<rparr>)
              | Some (Queue q) \<Rightarrow>
                  if maxevents \<le> 0 then (Some (- 1, []), s'\<lparr>errno := EINVAL\<rparr>)
                  else if ready s q = [] \<and> sint timeout < 0 then (None, s')
                  else (Some (int (length (take (nat maxevents) (ready s q))),
                              take (nat maxevents) (ready s q)),
                        s'\<lparr>ready := (ready s)(q := drop (nat maxevents) (ready s q))\<rparr>)))"

definition rb_sys_fail :: "string \<Rightarrow> state \<Rightarrow> error" where
  "rb_sys_fail msg s = SystemCallFailure msg (errno s)"

definition rb_update_max_fd :: "int \<Rightarrow> state \<Rightarrow> state" where
  "rb_update_max_fd fd s = (if max_fd s < fd then s\<lparr>max_fd := fd\<rparr> else s)"

definition rb_funcall_fileno :: "VALUE \<Rightarrow> state \<Rightarrow> error + VALUE" where
  "rb_funcall_fileno io s = fileno_of s io"

definition rb_funcall_transfer :: "VALUE \<Rightarrow> state \<Rightarrow> (error + unit) \<times> state" where
  "rb_funcall_transfer target s =
     (let s' = s\<lparr>trace := trace s @ [Transfer target]\<rparr>
      in case transfer_outcome s target of Some e \<Rightarrow> (Inl e, s') | None \<Rightarrow> (Inr (), s'))"

section \<open>The backend\<close>

text \<open>
  \<^verbatim>\<open>Event_Backend_EPoll_Type_free\<close> (lines 45-54). The result of \<^verbatim>\<open>close\<close> is not
  looked at; releasing the struct's memory is not modelled.
\<close>

definition Event_Backend_EPoll_Type_free :: "state \<Rightarrow> state" where
  "Event_Backend_EPoll_Type_free s =
     (if 0 \<le> descriptor (data s) then snd (close (descriptor (data s)) s) else s)"

text \<open>\<^verbatim>\<open>Event_Backend_EPoll_allocate\<close> (lines 72-80): a fresh struct behind \<open>instance\<close>.\<close>

definition Event_Backend_EPoll_allocate :: "VALUE \<Rightarrow> state \<Rightarrow> VALUE \<times> state" where
  "Event_Backend_EPoll_allocate instance s =
     (instance, s\<lparr>data := \<lparr>loop = Qnil, descriptor = - 1\<rparr>\<rparr>)"

text \<open>\<^verbatim>\<open>Event_Backend_EPoll_initialize\<close> (lines 82-90).\<close>

definition Event_Backend_EPoll_initialize :: "VALUE \<Rightarrow> VALUE \<Rightarrow> state \<Rightarrow> (error + VALUE) \<times> state" where
  "Event_Backend_EPoll_initialize self lp s =
     (let s1 = s\<lparr>data := (data s)\<lparr>loop := lp\<rparr>\<rparr>;
          (d, s2) = epoll_create 1 s1
      in (Inr self, s2\<lparr>data := (data s2)\<lparr>descriptor := d\<rparr>\<rparr>))"

text \<open>Lines 96-118 of \<^verbatim>\<open>Event_Backend_EPoll_io_wait\<close>: the event handed to the kernel.\<close>

definition make_event :: "int \<Rightarrow> VALUE \<Rightarrow> epoll_event" where
  "make_event msk fiber =
     (let e0 = (0 :: 32 word);
          e1 = (if msk AND READABLE \<noteq> 0 then e0 OR EPOLLIN else e0);
          e2 = (if msk AND PRIORITY \<noteq> 0 then e1 OR EPOLLPRI else e1);
          e3 = (if msk AND WRITABLE \<noteq> 0 then e2 OR EPOLLOUT else e2);
          e4 = e3 OR EPOLLRDHUP;
          e5 = e4 OR EPOLLONESHOT
      in \<lparr>events = e5, data_ptr = fiber\<rparr>)"

text \<open>
  Lines 139-145: the yield to the loop, then the release of the duplicate. An exception
  out of \<^verbatim>\<open>transfer\<close> leaves the function at once.
\<close>

definition io_wait_yield :: "int \<Rightarrow> state \<Rightarrow> (error + VALUE) \<times> state" where
  "io_wait_yield duplicate s =
     (case rb_funcall_transfer (loop (data s)) s of
        (Inl e, s1) \<Rightarrow> (Inl e, s1)
      | (Inr _, s1) \<Rightarrow>
          (Inr Qnil, if 0 \<le> duplicate then snd (close duplicate s1) else s1))"

text \<open>Lines 135-137, then the rest.\<close>

definition io_wait_registered :: "int \<Rightarrow> int \<Rightarrow> state \<Rightarrow> (error + VALUE) \<times> state" where
  "io_wait_registered result duplicate s =
     (if result = - 1 then (Inl (rb_sys_fail ''epoll_ctl'' s), s)
      else io_wait_yield duplicate s)"

text \<open>\<^verbatim>\<open>Event_Backend_EPoll_io_wait\<close> (lines 92-146).\<close>

definition Event_Backend_EPoll_io_wait :: "VALUE \<Rightarrow> VALUE \<Rightarrow> VALUE \<Rightarrow> VALUE \<Rightarrow> state \<Rightarrow> (error + VALUE) \<times> state" where
  "Event_Backend_EPoll_io_wait self fiber io evs s =
     (case rb_funcall_fileno io s of
        Inl e \<Rightarrow> (Inl e, s)
      | Inr v \<Rightarrow>
          (case NUM2INT v of
             Inl e \<Rightarrow> (Inl e, s)
           | Inr fd \<Rightarrow>
               (case NUM2INT evs of
                  Inl e \<Rightarrow> (Inl e, s)
                | Inr msk \<Rightarrow>
                    (let event = make_event msk fiber;
                         (result, s1) = epoll_ctl_ADD (descriptor (data s)) fd event s
                     in if result = - 1 \<and> errno s1 = EEXIST
                        then (let (d, s2) = dup fd s1;
                                  s3 = rb_update_max_fd d s2
                              in if d = - 1 then (Inl (rb_sys_fail ''dup'' s3), s3)
                                 else (let (result', s4) =
                                             epoll_ctl_ADD (descriptor (data s3)) d event s3
                                       in io_wait_registered result' d s4))
                        else io_wait_registered result (- 1) s1))))"

text \<open>
  The loop of lines 179-182 over the filled part of the array, first entry first. An
  exception out of \<^verbatim>\<open>transfer\<close> ends it.
\<close>

fun resume_each :: "epoll_event list \<Rightarrow> state \<Rightarrow> (error + unit) \<times> state" where
  "resume_each [] s = (Inr (), s)"
| "resume_each (ev # rest) s =
     (case rb_funcall_transfer (data_ptr ev) s of
        (Inl e, s1) \<Rightarrow> (Inl e, s1)
      | (Inr _, s1) \<Rightarrow> resume_each rest s1)"

text \<open>
  \<^verbatim>\<open>Event_Backend_EPoll_select\<close> (lines 167-185). \<^verbatim>\<open>make_timeout\<close> is an argument of
  the call of \<^verbatim>\<open>epoll_wait\<close>, so it is evaluated, and may raise, before the call.
\<close>

definition Event_Backend_EPoll_select :: "VALUE \<Rightarrow> VALUE \<Rightarrow> state \<Rightarrow> (error + VALUE) \<times> state" where
  "Event_Backend_EPoll_select self duration s =
     (case make_timeout duration of
        Inl e \<Rightarrow> (Inl e, s)
      | Inr timeout \<Rightarrow>
          (case epoll_wait (descriptor (data s)) EPOLL_MAX_EVENTS timeout s of
             (None, s1) \<Rightarrow> (Inl NeverReturns, s1)
           | (Some (count, filled), s1) \<Rightarrow>
               if count = - 1 then (Inl (rb_sys_fail ''epoll_wait'' s1), s1)
               else (case resume_each (take (nat count) filled) s1 of
                       (Inl e, s2) \<Rightarrow> (Inl e, s2)
                     | (Inr _, s2) \<Rightarrow> (Inr (INT2NUM count), s2))))"

text \<open>The calls an operation added to the trace.\<close>

definition calls_since :: "state \<Rightarrow> state \<Rightarrow> call list" where
  "calls_since s s' = drop (length (trace s)) (trace s')"

text \<open>
  The queue handle is sound when it is the sentinel \<open>-1\<close> or a descriptor that is open
  on an epoll instance.
\<close>

definition handle_valid :: "state \<Rightarrow> bool" where
  "handle_valid s =
     (descriptor (data s) = - 1
      \<or> (case map_of (fds s) (descriptor (data s)) of Some (Queue q) \<Rightarrow> True | _ \<Rightarrow> False))"

section \<open>Sample states\<close>

text \<open>
  A process with its three standard descriptors and no backend yet. In the samples the
  IO object \<open>RObject n\<close> answers \<open>n\<close> to \<^verbatim>\<open>fileno\<close>, and every \<^verbatim>\<open>transfer\<close> returns.
\<close>

definition boot :: state where
  "boot =
     \<lparr>data = \<lparr>loop = Qnil, descriptor = - 1\<rparr>,
      fds = [(0, Stream 0), (1, Stream 1), (2, Stream 2)],
      interest = [],
      ready = (\<lambda>q. []),
      next_queue = 0,
      faults = [],
      errno = EINTR,
      max_fd = 2,
      fileno_of = (\<lambda>v. case v of RObject n \<Rightarrow> Inr (RInteger (int n)) | _ \<Rightarrow> Inl TypeError),
      transfer_outcome = (\<lambda>v. None),
      trace = []\<rparr>"

text \<open>
  The same process once a backend was allocated and initialised (its queue is descriptor
  3) and a socket was opened as descriptor 4.
\<close>

definition running :: state where
  "running =
     boot\<lparr>data := \<lparr>loop = RObject 1, descriptor = 3\<rparr>,
          fds := [(4, Stream 3), (3, Queue 0), (0, Stream 0), (1, Stream 1), (2, Stream 2)],
          next_queue := 1,
          max_fd := 4\<rparr>"

text \<open>
  Two waits on the socket, one after the other, each resumed before the next starts:
  the first registers descriptor 4, the second finds it registered and goes through a
  duplicate, descriptor 5, which it closes at the end.
\<close>

definition after_first_wait :: state where
  "after_first_wait =
     snd (Event_Backend_EPoll_io_wait (RObject 100) (RObject 11) (RObject 4) (RInteger 1) running)"

definition after_two_waits :: state where
  "after_two_waits =
     snd (Event_Backend_EPoll_io_wait (RObject 100) (RObject 12) (RObject 4) (RInteger 4)
       after_first_wait)"

text \<open>After the first wait, with a kernel that will refuse the third system call to come.\<close>

definition retry_refused :: state where
  "retry_refused = after_first_wait\<lparr>faults := [None, None, Some ENOMEM]\<rparr>"

text \<open>A process at its descriptor limit.\<close>

definition denied :: state where
  "denied = boot\<lparr>faults := [Some EMFILE]\<rparr>"

text \<open>The running process with two entries ready on its queue.\<close>

definition two_ready :: state where
  "two_ready =
     running\<lparr>ready := (\<lambda>q. if q = 0
                            then [\<lparr>events = EPOLLIN, data_ptr = RObject 11\<rparr>,
                                  \<lparr>events = EPOLLOUT, data_ptr = RObject 12\<rparr>]
                            else [])\<rparr>"

section \<open>Facts about the timeout codec\<close>

lemma bit_length_le: "0 \<le> a \<Longrightarrow> a < 2 ^ k \<Longrightarrow> bit_length a \<le> k"
proof (induction k arbitrary: a)
  case 0
  then have "a = 0" by simp
  then show ?case by (simp add: bit_length.simps)
next
  case (Suc k)
  show ?case
  proof (cases "a \<le> 0")
    case True
    then show ?thesis by (simp add: bit_length.simps)
  next
    case False
    have "a div 2 < 2 ^ k" using Suc.prems by simp
    moreover have "0 \<le> a div 2" using Suc.prems by simp
    ultimately have "bit_length (a div 2) \<le> k" by (rule Suc.IH[rotated])
    then show ?thesis using False by (subst bit_length.simps) simp
  qed
qed

lemma sint_low32: "sint (ucast ((word_of_int n :: 64 word) * 1000) :: 32 word) = (n * 1000 + 2 ^ 31) mod 2 ^ 32 - 2 ^ 31"
proof -
  have m: "(word_of_int n :: 64 word) * 1000 = word_of_int (n * 1000)"
    by simp
  have u: "(ucast (word_of_int k :: 64 word) :: 32 word) = word_of_int k" for k
    by (rule bit_word_eqI) (simp add: bit_simps)
  have c: "(ucast ((word_of_int n :: 64 word) * 1000) :: 32 word) = word_of_int (n * 1000)"
    unfolding m by (rule u)
  have "sint (word_of_int (n * 1000) :: 32 word) = (n * 1000 + 2 ^ 31) mod 2 ^ 32 - 2 ^ 31"
    using int_word_sint [where 'a = 32 and x = "n * 1000"] by (simp del: of_int_mult)
  then show ?thesis
    unfolding c .
qed

lemma sint_in_range: "in_int_range k \<Longrightarrow> sint (word_of_int k :: 32 word) = k"
  unfolding in_int_range_def
  by (simp add: sint_sbintrunc' signed_take_bit_int_eq_self)

lemma trunc_real:
  "real_of_int (truncate_toward_zero m e) = sgn (valof (Finite m e)) * of_int \<lfloor>\<bar>valof (Finite m e)\<bar>\<rfloor>"
proof (cases "0 \<le> e")
  case True
  then have v: "valof (Finite m e) = of_int (m * 2 ^ nat e)"
    by (simp add: power_int_def)
  show ?thesis unfolding v using True
    by (simp add: truncate_toward_zero_def  flip: of_int_abs) (simp add: sgn_if abs_if)
next
  case False
  then have v: "valof (Finite m e) = of_int m / of_int (2 ^ nat (- e))"
    by (simp add: power_int_def field_simps)
  have a: "\<bar>valof (Finite m e)\<bar> = of_int \<bar>m\<bar> / of_int (2 ^ nat (- e))"
    unfolding v by (simp add: abs_divide)
  have s: "sgn (valof (Finite m e)) = of_int (sgn m)"
    unfolding v by (simp add: sgn_divide sgn_if zero_less_divide_iff divide_less_0_iff)
  show ?thesis unfolding a s floor_divide_of_int_eq using False
    by (simp add: truncate_toward_zero_def)
qed


lemma fixnum_of_int_range: "in_int_range (n * 1000) \<Longrightarrow> FIXNUM_P (RInteger n)"
  unfolding in_int_range_def by simp

lemma timeout_ms_fixnum:
  "FIXNUM_P (RInteger n) \<Longrightarrow> timeout_ms (RInteger n) = Inr ((n * 1000 + 2 ^ 31) mod 2 ^ 32 - 2 ^ 31)"
  unfolding timeout_ms_def make_timeout_def using sint_low32 [of n] by simp

lemma wrap_id: "in_int_range k \<Longrightarrow> (k + 2 ^ 31) mod 2 ^ 32 - 2 ^ 31 = k"
  unfolding in_int_range_def by simp

lemma wrap_in_range: "in_int_range ((k + 2 ^ 31) mod 2 ^ 32 - 2 ^ 31)"
  unfolding in_int_range_def by simp

lemma make_timeout_float: "make_timeout (RFloat d) = double_to_int (double_mul_1000 d)"
  by (simp add: make_timeout_def)

lemma double_to_int_trunc:
  "in_int_range (truncate_toward_zero m e) \<Longrightarrow>
   map_sum id sint (double_to_int (Finite m e)) = Inr (truncate_toward_zero m e)"
  using sint_in_range [of "truncate_toward_zero m e"]
  by (simp add: Let_def in_int_range_def)

lemma half_exact:
  assumes "0 \<le> n" "n \<le> 2147483"
  shows "timeout_ms (RFloat (Finite (2 * n + 1) (- 1))) = Inr (n * 1000 + 500)"
proof -
  define m where "m = (2 * n + 1) * 1000"
  have "0 \<le> \<bar>m\<bar>" "\<bar>m\<bar> < 2 ^ 53"
    using assms by (simp_all add: m_def)
  then have b: "bit_length \<bar>m\<bar> \<le> 53"
    by (rule bit_length_le)
  then have r: "round_to_double m (- 1) = Finite m (- 1)"
    by (simp add: round_to_double_def to_binary64_def Let_def)
  have t: "truncate_toward_zero m (- 1) = n * 1000 + 500"
    using assms by (simp add: truncate_toward_zero_def sgn_if m_def)
  have i: "in_int_range (truncate_toward_zero m (- 1))"
    unfolding t using assms by (simp add: in_int_range_def)
  have "timeout_ms (RFloat (Finite (2 * n + 1) (- 1))) = map_sum id sint (double_to_int (Finite m (- 1)))"
    unfolding timeout_ms_def make_timeout_float double_mul_1000.simps m_def [symmetric] r ..
  also have "\<dots> = Inr (n * 1000 + 500)"
    using double_to_int_trunc [OF i] unfolding t .
  finally show ?thesis .
qed

text \<open>
  C3, as amended. \<^verbatim>\<open>make_timeout\<close> maps nil to \<open>-1\<close>; an Integer \<open>N\<close> whose product
  \<open>N * 1000\<close> fits the 32-bit \<^verbatim>\<open>int\<close> to \<open>N * 1000\<close>; and the Float \<open>N.5\<close>, for
  \<open>0 \<le> N \<le> 2147483\<close>, to \<open>N * 1000 + 500\<close>.
\<close>

theorem make_timeout_in_range:
  "timeout_ms Qnil = Inr (- 1)
   \<and> (\<forall>n. in_int_range (n * 1000) \<longrightarrow> timeout_ms (RInteger n) = Inr (n * 1000))
   \<and> (\<forall>n. 0 \<le> n \<and> n \<le> 2147483 \<longrightarrow>
          is_double (Finite (2 * n + 1) (- 1))
        \<and> valof (Finite (2 * n + 1) (- 1)) = of_int n + 1 / 2
        \<and> timeout_ms (RFloat (Finite (2 * n + 1) (- 1))) = Inr (n * 1000 + 500))"
proof (intro conjI allI impI)
  show "timeout_ms Qnil = Inr (- 1)"
    by (simp add: timeout_ms_def make_timeout_def)
next
  fix n :: int
  assume r: "in_int_range (n * 1000)"
  show "timeout_ms (RInteger n) = Inr (n * 1000)"
    using timeout_ms_fixnum [OF fixnum_of_int_range [OF r]] wrap_id [OF r] by simp
next
  fix n :: int
  assume "0 \<le> n \<and> n \<le> 2147483"
  then show "is_double (Finite (2 * n + 1) (- 1))" by simp
next
  fix n :: int
  show "valof (Finite (2 * n + 1) (- 1)) = of_int n + 1 / 2"
    by (simp add: power_int_minus field_simps)
next
  fix n :: int
  assume "0 \<le> n \<and> n \<le> 2147483"
  then show "timeout_ms (RFloat (Finite (2 * n + 1) (- 1))) = Inr (n * 1000 + 500)"
    using half_exact by simp
qed

text \<open>The amended C3 at the durations 3 and 2.5.\<close>

theorem make_timeout_in_range_witness:
  "in_int_range (3 * 1000) \<and> timeout_ms (RInteger 3) = Inr 3000
   \<and> (0::int) \<le> 2 \<and> (2::int) \<le> 2147483
   \<and> timeout_ms (RFloat (Finite 5 (- 1))) = Inr 2500"
  using make_timeout_in_range by (auto simp: in_int_range_def dest!: spec [of _ "2::int"])

text \<open>
  C3 as first stated fails for a whole-unit duration of 2147484 (a little under 25 days):
  the \<^verbatim>\<open>int\<close> returned is negative, not \<open>2147484000\<close>.
\<close>

theorem make_timeout_whole_units_counterexample:
  "timeout_ms (RInteger 2147484) = Inr (- 2147483296) \<and> (- 2147483296 :: int) \<noteq> 2147484 * 1000"
  using timeout_ms_fixnum [of 2147484] by simp

text \<open>
  C9. For a fixnum \<open>N\<close> the \<^verbatim>\<open>int\<close> returned is \<open>N * 1000\<close> wrapped into 32 bits,
  so it differs from \<open>N * 1000\<close> whenever that is out of range, and can be negative for a
  positive duration. For a Float the binary64 product with 1000 is cut toward zero, not
  rounded to nearest: the duration \<open>2047 / 2048\<close> has the product \<open>999.51171875\<close> and
  yields 999, and its opposite yields \<open>-999\<close>. (The integer branch is the one taken by
  fixnums; a Float whose product does not fit \<^verbatim>\<open>int\<close> has no defined result.)
\<close>

theorem make_timeout_wraps_and_truncates:
  "(\<forall>n. FIXNUM_P (RInteger n) \<longrightarrow>
        timeout_ms (RInteger n) = Inr ((n * 1000 + 2 ^ 31) mod 2 ^ 32 - 2 ^ 31)
      \<and> (\<not> in_int_range (n * 1000) \<longrightarrow> timeout_ms (RInteger n) \<noteq> Inr (n * 1000)))
   \<and> timeout_ms (RInteger 2147484) = Inr (- 2147483296)
   \<and> (\<forall>d m e. double_mul_1000 d = Finite m e \<and> \<bar>valof (Finite m e)\<bar> < 2 ^ 31 \<longrightarrow>
        (\<exists>t. timeout_ms (RFloat d) = Inr t
           \<and> real_of_int t = sgn (valof (Finite m e)) * of_int \<lfloor>\<bar>valof (Finite m e)\<bar>\<rfloor>))
   \<and> double_mul_1000 (Finite 2047 (- 11)) = Finite 2047000 (- 11)
   \<and> valof (Finite 2047000 (- 11)) = 999.51171875
   \<and> timeout_ms (RFloat (Finite 2047 (- 11))) = Inr 999
   \<and> timeout_ms (RFloat (Finite (- 2047) (- 11))) = Inr (- 999)"
proof (intro conjI allI impI)
  fix n :: int
  assume f: "FIXNUM_P (RInteger n)"
  show "timeout_ms (RInteger n) = Inr ((n * 1000 + 2 ^ 31) mod 2 ^ 32 - 2 ^ 31)"
    by (rule timeout_ms_fixnum [OF f])
  assume o: "\<not> in_int_range (n * 1000)"
  show "timeout_ms (RInteger n) \<noteq> Inr (n * 1000)"
  proof
    assume "timeout_ms (RInteger n) = Inr (n * 1000)"
    with timeout_ms_fixnum [OF f] have "(n * 1000 + 2 ^ 31) mod 2 ^ 32 - 2 ^ 31 = n * 1000"
      by simp
    with wrap_in_range [of "n * 1000"] o show False by simp
  qed
next
  show "timeout_ms (RInteger 2147484) = Inr (- 2147483296)"
    using timeout_ms_fixnum [of 2147484] by simp
next
  fix d m e
  assume a: "double_mul_1000 d = Finite m e \<and> \<bar>valof (Finite m e)\<bar> < 2 ^ 31"
  let ?p = "valof (Finite m e)"
  let ?t = "truncate_toward_zero m e"
  have tr: "real_of_int ?t = sgn ?p * of_int \<lfloor>\<bar>?p\<bar>\<rfloor>"
    by (rule trunc_real)
  have "\<bar>real_of_int ?t\<bar> = of_int \<lfloor>\<bar>?p\<bar>\<rfloor>"
    unfolding tr by (simp add: abs_mult sgn_if)
  also have "\<dots> \<le> \<bar>?p\<bar>" by simp
  finally have "\<bar>real_of_int ?t\<bar> < 2 ^ 31" using a by simp
  then have "\<bar>?t\<bar> < 2 ^ 31"
    by (metis of_int_abs of_int_less_iff of_int_numeral of_int_power)
  then have i: "in_int_range ?t" unfolding in_int_range_def by linarith
  have "timeout_ms (RFloat d) = Inr ?t"
    using a double_to_int_trunc [OF i]
    by (simp add: timeout_ms_def make_timeout_float)
  with tr show "\<exists>t. timeout_ms (RFloat d) = Inr t
           \<and> real_of_int t = sgn ?p * of_int \<lfloor>\<bar>?p\<bar>\<rfloor>"
    by blast
next
  show "double_mul_1000 (Finite 2047 (- 11)) = Finite 2047000 (- 11)"
    by code_simp
next
  show "valof (Finite 2047000 (- 11)) = 999.51171875"
    by (simp add: power_int_minus)
next
  show "timeout_ms (RFloat (Finite 2047 (- 11))) = Inr 999"
    by code_simp
next
  show "timeout_ms (RFloat (Finite (- 2047) (- 11))) = Inr (- 999)"
    by code_simp
qed

text \<open>C9 at the durations 3000000 and \<open>2047 / 2048\<close>.\<close>

theorem make_timeout_wraps_and_truncates_witness:
  "FIXNUM_P (RInteger 3000000) \<and> \<not> in_int_range (3000000 * 1000)
   \<and> timeout_ms (RInteger 3000000) = Inr (- 1294967296)
   \<and> timeout_ms (RInteger 3000000) \<noteq> Inr (3000000 * 1000)
   \<and> double_mul_1000 (Finite 2047 (- 11)) = Finite 2047000 (- 11)
   \<and> \<bar>valof (Finite 2047000 (- 11))\<bar> < 2 ^ 31
   \<and> (\<exists>t. timeout_ms (RFloat (Finite 2047 (- 11))) = Inr t
          \<and> real_of_int t = sgn (valof (Finite 2047000 (- 11)))
                * of_int \<lfloor>\<bar>valof (Finite 2047000 (- 11))\<bar>\<rfloor>)"
proof -
  note th = make_timeout_wraps_and_truncates
  have i: "FIXNUM_P (RInteger 3000000) \<and> \<not> in_int_range (3000000 * 1000)
     \<and> timeout_ms (RInteger 3000000) = Inr (- 1294967296)
     \<and> timeout_ms (RInteger 3000000) \<noteq> Inr (3000000 * 1000)"
    using th by (auto simp: in_int_range_def dest!: spec [of _ "3000000::int"])
  have m: "double_mul_1000 (Finite 2047 (- 11)) = Finite 2047000 (- 11)"
    using th by blast
  have v: "\<bar>valof (Finite 2047000 (- 11))\<bar> < 2 ^ 31"
    by (simp add: power_int_minus)
  have f: "\<forall>d m e. double_mul_1000 d = Finite m e \<and> \<bar>valof (Finite m e)\<bar> < 2 ^ 31 \<longrightarrow>
        (\<exists>t. timeout_ms (RFloat d) = Inr t
           \<and> real_of_int t = sgn (valof (Finite m e)) * of_int \<lfloor>\<bar>valof (Finite m e)\<bar>\<rfloor>)"
    using th by blast
  from f [rule_format, of "Finite 2047 (- 11)" 2047000 "- 11"] m v
  have "\<exists>t. timeout_ms (RFloat (Finite 2047 (- 11))) = Inr t
          \<and> real_of_int t = sgn (valof (Finite 2047000 (- 11)))
                * of_int \<lfloor>\<bar>valof (Finite 2047000 (- 11))\<bar>\<rfloor>"
    by blast
  with i m v show ?thesis by blast
qed

text \<open>
  C7. A duration that is neither nil, nor an Integer, nor a Float makes
  \<^verbatim>\<open>make_timeout\<close> raise \<^verbatim>\<open>RuntimeError\<close>, and \<^verbatim>\<open>select\<close> ends with that error in
  the state it started from: no call left the backend, so nothing was waited for and no
  waiter was resumed.
\<close>

theorem make_timeout_rejects_other_shapes:
  "duration \<noteq> Qnil \<and> (\<forall>n. duration \<noteq> RInteger n) \<and> (\<forall>f. duration \<noteq> RFloat f) \<longrightarrow>
     make_timeout duration = Inl (RuntimeError ''unable to convert timeout'')
   \<and> Event_Backend_EPoll_select self duration s = (Inl (RuntimeError ''unable to convert timeout''), s)
   \<and> calls_since s (snd (Event_Backend_EPoll_select self duration s)) = []"
proof (intro impI)
  assume a: "duration \<noteq> Qnil \<and> (\<forall>n. duration \<noteq> RInteger n) \<and> (\<forall>f. duration \<noteq> RFloat f)"
  then have m: "make_timeout duration = Inl (RuntimeError ''unable to convert timeout'')"
    by (cases duration) (simp_all add: make_timeout_def)
  then show "make_timeout duration = Inl (RuntimeError ''unable to convert timeout'')
   \<and> Event_Backend_EPoll_select self duration s = (Inl (RuntimeError ''unable to convert timeout''), s)
   \<and> calls_since s (snd (Event_Backend_EPoll_select self duration s)) = []"
    by (simp add: Event_Backend_EPoll_select_def calls_since_def)
qed

text \<open>C7 at the duration \<^verbatim>\<open>true\<close>.\<close>

theorem make_timeout_rejects_other_shapes_witness:
  "Qtrue \<noteq> Qnil \<and> (\<forall>n. Qtrue \<noteq> RInteger n) \<and> (\<forall>f. Qtrue \<noteq> RFloat f)
   \<and> make_timeout Qtrue = Inl (RuntimeError ''unable to convert timeout'')
   \<and> Event_Backend_EPoll_select (RObject 100) Qtrue running
       = (Inl (RuntimeError ''unable to convert timeout''), running)"
  using make_timeout_rejects_other_shapes [of Qtrue "RObject 100" running] by simp

section \<open>Facts about the environment\<close>

lemma find_SomeD: "List.find P xs = Some x \<Longrightarrow> P x \<and> x \<in> set xs"
  by (induction xs) (auto split: if_splits)

lemma lowest_unused_fresh:
  assumes "lowest_unused tab = Some fd"
  shows "map_of tab fd = None" and "0 \<le> fd"
  using find_SomeD [OF assms [unfolded lowest_unused_def]] by auto

lemma epoll_ctl_ADD_frame [simp]:
  "data (snd (epoll_ctl_ADD epfd fd ev s)) = data s"
  "fds (snd (epoll_ctl_ADD epfd fd ev s)) = fds s"
  "ready (snd (epoll_ctl_ADD epfd fd ev s)) = ready s"
  "transfer_outcome (snd (epoll_ctl_ADD epfd fd ev s)) = transfer_outcome s"
  "trace (snd (epoll_ctl_ADD epfd fd ev s)) = trace s @ [Epoll_ctl_add epfd fd ev]"
  by (simp_all add: epoll_ctl_ADD_def entered_def fails_def Let_def split: option.splits ofd.splits)

lemma dup_frame [simp]:
  "data (snd (dup fd s)) = data s"
  "ready (snd (dup fd s)) = ready s"
  "transfer_outcome (snd (dup fd s)) = transfer_outcome s"
  "trace (snd (dup fd s)) = trace s @ [Dup fd]"
  by (simp_all add: dup_def entered_def fails_def Let_def split: option.splits)

lemma dup_fresh: "fst (dup fd s) \<noteq> - 1 \<Longrightarrow> map_of (fds s) (fst (dup fd s)) = None"
  by (auto simp: dup_def entered_def fails_def Let_def lowest_unused_fresh split: option.splits)

lemma dup_keeps_open:
  "map_of (fds s) k = Some f \<Longrightarrow> map_of (fds (snd (dup fd s))) k = Some f"
  by (auto simp: dup_def entered_def fails_def Let_def dest: lowest_unused_fresh split: option.splits)

lemma map_of_filter_key:
  "map_of (filter (\<lambda>(k, _). k \<noteq> fd) tab) k' = (if k' = fd then None else map_of tab k')"
  by (induction tab) auto

lemma close_frame [simp]:
  "data (snd (close fd s)) = data s"
  "ready (snd (close fd s)) = ready s"
  "transfer_outcome (snd (close fd s)) = transfer_outcome s"
  "trace (snd (close fd s)) = trace s @ [Close fd]"
  by (simp_all add: close_def fails_def Let_def split: option.splits)

lemma close_fds:
  "map_of (fds (snd (close fd s))) k = (if k = fd then None else map_of (fds s) k)"
  by (auto simp: close_def fails_def Let_def map_of_filter_key split: option.splits)

lemma rb_update_max_fd_frame [simp]:
  "data (rb_update_max_fd fd s) = data s"
  "fds (rb_update_max_fd fd s) = fds s"
  "ready (rb_update_max_fd fd s) = ready s"
  "errno (rb_update_max_fd fd s) = errno s"
  "transfer_outcome (rb_update_max_fd fd s) = transfer_outcome s"
  "trace (rb_update_max_fd fd s) = trace s"
  by (simp_all add: rb_update_max_fd_def)

lemma rb_funcall_transfer_frame [simp]:
  "data (snd (rb_funcall_transfer v s)) = data s"
  "fds (snd (rb_funcall_transfer v s)) = fds s"
  "ready (snd (rb_funcall_transfer v s)) = ready s"
  "transfer_outcome (snd (rb_funcall_transfer v s)) = transfer_outcome s"
  "trace (snd (rb_funcall_transfer v s)) = trace s @ [Transfer v]"
  by (simp_all add: rb_funcall_transfer_def Let_def split: option.splits)

lemma resume_each_frame [simp]:
  "data (snd (resume_each evs s)) = data s"
  "fds (snd (resume_each evs s)) = fds s"
  "ready (snd (resume_each evs s)) = ready s"
  by (induction evs arbitrary: s; simp add: case_prod_unfold split: sum.splits)+

lemma resume_each_trace:
  "fst (resume_each evs s) = Inr u \<Longrightarrow>
   trace (snd (resume_each evs s)) = trace s @ map (Transfer \<circ> data_ptr) evs"
  by (induction evs arbitrary: s) (auto simp: case_prod_unfold split: sum.splits)

lemma epoll_wait_frame [simp]:
  "data (snd (epoll_wait epfd n t s)) = data s"
  "fds (snd (epoll_wait epfd n t s)) = fds s"
  "trace (snd (epoll_wait epfd n t s)) = trace s @ [Epoll_wait epfd n (sint t)]"
  by (simp_all add: epoll_wait_def entered_def Let_def split: option.splits ofd.splits)

lemma epoll_wait_delivers:
  assumes "fst (epoll_wait epfd n t s) = Some (c, filled)" "c \<noteq> - 1"
  shows "\<exists>q. map_of (fds s) epfd = Some (Queue q) \<and> injected s = None
            \<and> filled = take (nat n) (ready s q) \<and> c = int (length filled)
            \<and> ready (snd (epoll_wait epfd n t s)) q = drop (nat n) (ready s q)"
  using assms
  by (auto simp: epoll_wait_def entered_def Let_def split: option.splits ofd.splits if_splits)

lemma epoll_wait_timeout:
  assumes "map_of (fds s) epfd = Some (Queue q)" "injected s = None" "0 < n"
    "ready s q = []" "0 \<le> sint t"
  shows "fst (epoll_wait epfd n t s) = Some (0, [])"
  using assms by (simp add: epoll_wait_def entered_def Let_def)

lemma handle_valid_iff:
  "handle_valid s \<longleftrightarrow>
     descriptor (data s) = - 1 \<or> (\<exists>q. map_of (fds s) (descriptor (data s)) = Some (Queue q))"
  by (auto simp: handle_valid_def split: option.splits ofd.splits)

section \<open>Facts about the registration protocol\<close>

lemma io_wait_yield_frame [simp]:
  "data (snd (io_wait_yield d s)) = data s"
  by (simp add: io_wait_yield_def case_prod_unfold split: sum.splits)

lemma io_wait_registered_frame [simp]:
  "data (snd (io_wait_registered r d s)) = data s"
  by (simp add: io_wait_registered_def)

lemma io_wait_data: "data (snd (Event_Backend_EPoll_io_wait self fiber io evs s)) = data s"
  by (simp add: Event_Backend_EPoll_io_wait_def Let_def case_prod_unfold split: sum.splits)

lemma select_data: "data (snd (Event_Backend_EPoll_select self duration s)) = data s"
proof -
  have e: "data (snd x) = data s" if "x = epoll_wait (descriptor (data s)) EPOLL_MAX_EVENTS t s" for x t
    using that by simp
  show ?thesis
    unfolding Event_Backend_EPoll_select_def
    by (auto simp: case_prod_unfold split: sum.splits option.splits)
qed

lemma io_wait_yield_keeps_open:
  "map_of (fds s) k = Some f \<Longrightarrow> (0 \<le> d \<longrightarrow> k \<noteq> d) \<Longrightarrow>
   map_of (fds (snd (io_wait_yield d s))) k = Some f"
  by (simp add: io_wait_yield_def case_prod_unfold close_fds split: sum.splits)

lemma io_wait_registered_keeps_open:
  "map_of (fds s) k = Some f \<Longrightarrow> (0 \<le> d \<longrightarrow> k \<noteq> d) \<Longrightarrow>
   map_of (fds (snd (io_wait_registered r d s))) k = Some f"
  by (simp add: io_wait_registered_def io_wait_yield_keeps_open)

lemma io_wait_early:
  "rb_funcall_fileno io s = Inl e \<Longrightarrow> Event_Backend_EPoll_io_wait self fiber io evs s = (Inl e, s)"
  "rb_funcall_fileno io s = Inr v \<Longrightarrow> NUM2INT v = Inl e \<Longrightarrow>
     Event_Backend_EPoll_io_wait self fiber io evs s = (Inl e, s)"
  "rb_funcall_fileno io s = Inr v \<Longrightarrow> NUM2INT v = Inr fd \<Longrightarrow> NUM2INT evs = Inl e \<Longrightarrow>
     Event_Backend_EPoll_io_wait self fiber io evs s = (Inl e, s)"
  by (simp_all add: Event_Backend_EPoll_io_wait_def)

lemma io_wait_unfold:
  assumes "rb_funcall_fileno io s = Inr v" "NUM2INT v = Inr fd" "NUM2INT evs = Inr msk"
  shows "Event_Backend_EPoll_io_wait self fiber io evs s =
     (if fst (epoll_ctl_ADD (descriptor (data s)) fd (make_event msk fiber) s) = - 1
         \<and> errno (snd (epoll_ctl_ADD (descriptor (data s)) fd (make_event msk fiber) s)) = EEXIST
      then (if fst (dup fd (snd (epoll_ctl_ADD (descriptor (data s)) fd (make_event msk fiber) s))) = - 1
            then (Inl (rb_sys_fail ''dup''
                    (rb_update_max_fd (- 1)
                       (snd (dup fd (snd (epoll_ctl_ADD (descriptor (data s)) fd (make_event msk fiber) s)))))),
                  rb_update_max_fd (- 1)
                    (snd (dup fd (snd (epoll_ctl_ADD (descriptor (data s)) fd (make_event msk fiber) s)))))
            else io_wait_registered
                   (fst (epoll_ctl_ADD (descriptor (data s))
                      (fst (dup fd (snd (epoll_ctl_ADD (descriptor (data s)) fd (make_event msk fiber) s))))
                      (make_event msk fiber)
                      (rb_update_max_fd
                         (fst (dup fd (snd (epoll_ctl_ADD (descriptor (data s)) fd (make_event msk fiber) s))))
                         (snd (dup fd (snd (epoll_ctl_ADD (descriptor (data s)) fd (make_event msk fiber) s)))))))
                   (fst (dup fd (snd (epoll_ctl_ADD (descriptor (data s)) fd (make_event msk fiber) s))))
                   (snd (epoll_ctl_ADD (descriptor (data s))
                      (fst (dup fd (snd (epoll_ctl_ADD (descriptor (data s)) fd (make_event msk fiber) s))))
                      (make_event msk fiber)
                      (rb_update_max_fd
                         (fst (dup fd (snd (epoll_ctl_ADD (descriptor (data s)) fd (make_event msk fiber) s))))
                         (snd (dup fd (snd (epoll_ctl_ADD (descriptor (data s)) fd (make_event msk fiber) s))))))))
      else io_wait_registered
             (fst (epoll_ctl_ADD (descriptor (data s)) fd (make_event msk fiber) s)) (- 1)
             (snd (epoll_ctl_ADD (descriptor (data s)) fd (make_event msk fiber) s)))"
  using assms by (simp add: Event_Backend_EPoll_io_wait_def Let_def case_prod_unfold)

lemma io_wait_cases:
  obtains
    (early) e where "Event_Backend_EPoll_io_wait self fiber io evs s = (Inl e, s)"
  | (plain) fd msk s1 r where
      "NUM2INT evs = Inr msk"
      "epoll_ctl_ADD (descriptor (data s)) fd (make_event msk fiber) s = (r, s1)"
      "Event_Backend_EPoll_io_wait self fiber io evs s = io_wait_registered r (- 1) s1"
  | (dup_failed) fd msk s1 s2 where
      "NUM2INT evs = Inr msk"
      "epoll_ctl_ADD (descriptor (data s)) fd (make_event msk fiber) s = (- 1, s1)"
      "dup fd s1 = (- 1, s2)"
      "Event_Backend_EPoll_io_wait self fiber io evs s
         = (Inl (rb_sys_fail ''dup'' (rb_update_max_fd (- 1) s2)), rb_update_max_fd (- 1) s2)"
  | (retried) fd msk s1 d s2 r s4 where
      "NUM2INT evs = Inr msk"
      "epoll_ctl_ADD (descriptor (data s)) fd (make_event msk fiber) s = (- 1, s1)"
      "dup fd s1 = (d, s2)" "d \<noteq> - 1"
      "epoll_ctl_ADD (descriptor (data s)) d (make_event msk fiber) (rb_update_max_fd d s2) = (r, s4)"
      "Event_Backend_EPoll_io_wait self fiber io evs s = io_wait_registered r d s4"
proof (cases "rb_funcall_fileno io s")
  case (Inl e)
  then show ?thesis using early io_wait_early(1) by blast
next
  case v: (Inr v)
  show ?thesis
  proof (cases "NUM2INT v")
    case (Inl e)
    then show ?thesis using early io_wait_early(2) v by blast
  next
    case fd: (Inr fd)
    show ?thesis
    proof (cases "NUM2INT evs")
      case (Inl e)
      then show ?thesis using early io_wait_early(3) v fd by blast
    next
      case msk: (Inr msk)
      note u = io_wait_unfold [OF v fd msk, of self fiber]
      obtain r s1 where a: "epoll_ctl_ADD (descriptor (data s)) fd (make_event msk fiber) s = (r, s1)"
        by (cases "epoll_ctl_ADD (descriptor (data s)) fd (make_event msk fiber) s")
      obtain d s2 where b: "dup fd s1 = (d, s2)"
        by (cases "dup fd s1")
      obtain r' s4 where c:
        "epoll_ctl_ADD (descriptor (data s)) d (make_event msk fiber) (rb_update_max_fd d s2) = (r', s4)"
        by (cases "epoll_ctl_ADD (descriptor (data s)) d (make_event msk fiber) (rb_update_max_fd d s2)")
      show ?thesis
      proof (cases "r = - 1 \<and> errno s1 = EEXIST")
        case False
        then show ?thesis using plain [OF msk a] u a by auto
      next
        case True
        show ?thesis
        proof (cases "d = - 1")
          case True
          with \<open>r = - 1 \<and> errno s1 = EEXIST\<close> show ?thesis
            using dup_failed [OF msk] u a b by auto
        next
          case False
          with \<open>r = - 1 \<and> errno s1 = EEXIST\<close> show ?thesis
            using retried [OF msk _ b False c] u a b c by auto
        qed
      qed
    qed
  qed
qed

lemma io_wait_keeps_open:
  assumes "map_of (fds s) k = Some f"
  shows "map_of (fds (snd (Event_Backend_EPoll_io_wait self fiber io evs s))) k = Some f"
proof (cases rule: io_wait_cases [of self fiber io evs s])
  case (early e)
  then show ?thesis using assms by simp
next
  case (plain fd msk s1 r)
  have "fds s1 = fds s" using epoll_ctl_ADD_frame(2) [of "descriptor (data s)" fd "make_event msk fiber" s] plain(2) by simp
  then show ?thesis using plain(3) assms by (simp add: io_wait_registered_keeps_open)
next
  case (dup_failed fd msk s1 s2)
  have "fds s1 = fds s" using epoll_ctl_ADD_frame(2) [of "descriptor (data s)" fd "make_event msk fiber" s] dup_failed(2) by simp
  then have "map_of (fds s2) k = Some f"
    using dup_keeps_open [of s1 k f fd] dup_failed(3) assms by simp
  then show ?thesis using dup_failed(4) by simp
next
  case (retried fd msk s1 d s2 r s4)
  have 1: "fds s1 = fds s" using epoll_ctl_ADD_frame(2) [of "descriptor (data s)" fd "make_event msk fiber" s] retried(2) by simp
  then have 2: "map_of (fds s2) k = Some f"
    using dup_keeps_open [of s1 k f fd] retried(3) assms by simp
  have "map_of (fds s1) d = None" using dup_fresh [of fd s1] retried(3,4) by simp
  then have 3: "k \<noteq> d" using 1 assms by auto
  have "fds s4 = fds s2"
    using epoll_ctl_ADD_frame(2) [of "descriptor (data s)" d "make_event msk fiber" "rb_update_max_fd d s2"] retried(5)
    by simp
  then show ?thesis using retried(6) 2 3 by (simp add: io_wait_registered_keeps_open)
qed


lemma calls_sinceI: "trace s' = trace s @ cs \<Longrightarrow> calls_since s s' = cs"
  by (simp add: calls_since_def)

lemmas sample_defs = boot_def running_def after_first_wait_def after_two_waits_def
  retry_refused_def denied_def two_ready_def
lemmas sys_defs = epoll_ctl_ADD_def dup_def close_def epoll_wait_def epoll_create_def
  entered_def fails_def injected_def rb_update_max_fd_def rb_funcall_transfer_def
  rb_funcall_fileno_def rb_sys_fail_def lowest_unused_def
lemmas op_defs = Event_Backend_EPoll_io_wait_def io_wait_registered_def io_wait_yield_def
  Event_Backend_EPoll_select_def Event_Backend_EPoll_initialize_def make_event_def
lemmas const_defs = in_int_range_def Let_def calls_since_def
  READABLE_def PRIORITY_def WRITABLE_def EPOLL_MAX_EVENTS_def
  EPOLLIN_def EPOLLPRI_def EPOLLOUT_def EPOLLRDHUP_def EPOLLONESHOT_def

section \<open>Queue creation\<close>

text \<open>
  C1 does not hold of the code. \<^verbatim>\<open>Event_Backend_EPoll_initialize\<close> returns \<open>self\<close>
  whatever \<^verbatim>\<open>epoll_create\<close> answers: when the kernel refuses the queue, the call still
  returns normally, and the backend it returns holds the descriptor \<open>-1\<close>.
\<close>

theorem initialize_never_fails:
  "fst (Event_Backend_EPoll_initialize self lp s) = Inr self
   \<and> (fst (epoll_create 1 (s\<lparr>data := (data s)\<lparr>loop := lp\<rparr>\<rparr>)) = - 1 \<longrightarrow>
        descriptor (data (snd (Event_Backend_EPoll_initialize self lp s))) = - 1)"
  by (simp add: Event_Backend_EPoll_initialize_def Let_def case_prod_unfold)

text \<open>The same at a process that has reached its descriptor limit.\<close>

theorem initialize_never_fails_witness:
  "fst (epoll_create 1 (denied\<lparr>data := (data denied)\<lparr>loop := RObject 1\<rparr>\<rparr>)) = - 1
   \<and> fst (Event_Backend_EPoll_initialize (RObject 100) (RObject 1) denied) = Inr (RObject 100)
   \<and> descriptor (data (snd (Event_Backend_EPoll_initialize (RObject 100) (RObject 1) denied))) = - 1"
proof -
  have h: "fst (epoll_create 1 (denied\<lparr>data := (data denied)\<lparr>loop := RObject 1\<rparr>\<rparr>)) = - 1"
    by (simp add: sample_defs sys_defs const_defs)
  with initialize_never_fails [of "RObject 100" "RObject 1" denied] show ?thesis by simp
qed

section \<open>The duplicate descriptor\<close>

text \<open>
  C2 does not hold of the code. A wait on the socket that is already registered, with a
  kernel that refuses the retried add: the call raises out of line 136, and the duplicate
  (descriptor 5, free before the call) is still open after it; no \<^verbatim>\<open>close\<close> was made.
\<close>

theorem io_wait_leaks_duplicate:
  "fst (Event_Backend_EPoll_io_wait (RObject 100) (RObject 13) (RObject 4) (RInteger 1) retry_refused)
     = Inl (SystemCallFailure ''epoll_ctl'' ENOMEM)
   \<and> calls_since retry_refused
        (snd (Event_Backend_EPoll_io_wait (RObject 100) (RObject 13) (RObject 4) (RInteger 1) retry_refused))
     = [Epoll_ctl_add 3 4 \<lparr>events = 0x40002001, data_ptr = RObject 13\<rparr>,
        Dup 4,
        Epoll_ctl_add 3 5 \<lparr>events = 0x40002001, data_ptr = RObject 13\<rparr>]
   \<and> map_of (fds retry_refused) 5 = None
   \<and> map_of (fds (snd (Event_Backend_EPoll_io_wait (RObject 100) (RObject 13) (RObject 4) (RInteger 1)
        retry_refused))) 5 = Some (Stream 3)"
  by (simp add: sample_defs sys_defs op_defs const_defs)

section \<open>Conflict recovery\<close>

text \<open>
  C5 as first stated fails on a third wait on the same socket. The registration made
  through the duplicate during the second wait is still in the queue (the socket is
  still open), so the new duplicate, again descriptor 5, is refused as already
  present, and that conflict reaches the caller.
\<close>

theorem io_wait_second_conflict_counterexample:
  "fst (epoll_ctl_ADD 3 4 (make_event 1 (RObject 13)) after_two_waits) = - 1
   \<and> errno (snd (epoll_ctl_ADD 3 4 (make_event 1 (RObject 13)) after_two_waits)) = EEXIST
   \<and> fst (Event_Backend_EPoll_io_wait (RObject 100) (RObject 13) (RObject 4) (RInteger 1) after_two_waits)
     = Inl (SystemCallFailure ''epoll_ctl'' EEXIST)"
  by (simp add: sample_defs sys_defs op_defs const_defs)

text \<open>
  C5, as amended. When the first add fails with \<^verbatim>\<open>EEXIST\<close>, the next call is a
  \<^verbatim>\<open>dup\<close> of the descriptor, and the first conflict is not raised. If \<^verbatim>\<open>dup\<close> fails
  the call raises the failure of \<^verbatim>\<open>dup\<close>. Otherwise the add is made once more, with
  the duplicate and the same event; if that add fails, for whatever reason, the call
  raises the failure of \<^verbatim>\<open>epoll_ctl\<close>, and if it succeeds the call goes on to yield,
  and returns nil when the yield returns.
\<close>

theorem io_wait_conflict_recovery:
  "rb_funcall_fileno io s = Inr v \<and> NUM2INT v = Inr fd \<and> NUM2INT evs = Inr msk
   \<and> epoll_ctl_ADD (descriptor (data s)) fd (make_event msk fiber) s = (- 1, s1)
   \<and> errno s1 = EEXIST
   \<and> dup fd s1 = (d, s2)
   \<and> epoll_ctl_ADD (descriptor (data s)) d (make_event msk fiber) (rb_update_max_fd d s2) = (r, s4)
   \<longrightarrow>
     trace s2 = trace s @ [Epoll_ctl_add (descriptor (data s)) fd (make_event msk fiber), Dup fd]
   \<and> (d = - 1 \<longrightarrow>
        Event_Backend_EPoll_io_wait self fiber io evs s
          = (Inl (SystemCallFailure ''dup'' (errno s2)), rb_update_max_fd d s2))
   \<and> (d \<noteq> - 1 \<longrightarrow>
        trace s4 = trace s2 @ [Epoll_ctl_add (descriptor (data s)) d (make_event msk fiber)]
      \<and> (r = - 1 \<longrightarrow>
           Event_Backend_EPoll_io_wait self fiber io evs s
             = (Inl (SystemCallFailure ''epoll_ctl'' (errno s4)), s4))
      \<and> (r \<noteq> - 1 \<longrightarrow>
           Event_Backend_EPoll_io_wait self fiber io evs s = io_wait_yield d s4)
      \<and> (r \<noteq> - 1 \<and> transfer_outcome s (loop (data s)) = None \<longrightarrow>
           fst (Event_Backend_EPoll_io_wait self fiber io evs s) = Inr Qnil))"
proof (intro impI)
  assume a: "rb_funcall_fileno io s = Inr v \<and> NUM2INT v = Inr fd \<and> NUM2INT evs = Inr msk
   \<and> epoll_ctl_ADD (descriptor (data s)) fd (make_event msk fiber) s = (- 1, s1)
   \<and> errno s1 = EEXIST
   \<and> dup fd s1 = (d, s2)
   \<and> epoll_ctl_ADD (descriptor (data s)) d (make_event msk fiber) (rb_update_max_fd d s2) = (r, s4)"
  then have v: "rb_funcall_fileno io s = Inr v" and fd: "NUM2INT v = Inr fd"
    and msk: "NUM2INT evs = Inr msk"
    and a1: "epoll_ctl_ADD (descriptor (data s)) fd (make_event msk fiber) s = (- 1, s1)"
    and e1: "errno s1 = EEXIST" and d: "dup fd s1 = (d, s2)"
    and a2: "epoll_ctl_ADD (descriptor (data s)) d (make_event msk fiber) (rb_update_max_fd d s2) = (r, s4)"
    by simp_all
  note u = io_wait_unfold [OF v fd msk, of self fiber]
  have t1: "trace s1 = trace s @ [Epoll_ctl_add (descriptor (data s)) fd (make_event msk fiber)]"
    using epoll_ctl_ADD_frame(5) [of "descriptor (data s)" fd "make_event msk fiber" s] a1 by simp
  have t2: "trace s2 = trace s1 @ [Dup fd]"
    using dup_frame(4) [of fd s1] d by simp
  have t4: "trace s4 = trace s2 @ [Epoll_ctl_add (descriptor (data s)) d (make_event msk fiber)]"
    using epoll_ctl_ADD_frame(5) [of "descriptor (data s)" d "make_event msk fiber" "rb_update_max_fd d s2"] a2
    by simp
  have o4: "transfer_outcome s4 = transfer_outcome s" "data s4 = data s"
    using epoll_ctl_ADD_frame(1,4) [of "descriptor (data s)" d "make_event msk fiber" "rb_update_max_fd d s2"] a2
      dup_frame(1,3) [of fd s1] d
      epoll_ctl_ADD_frame(1,4) [of "descriptor (data s)" fd "make_event msk fiber" s] a1
    by simp_all
  have w1: "d = - 1 \<Longrightarrow> Event_Backend_EPoll_io_wait self fiber io evs s
          = (Inl (SystemCallFailure ''dup'' (errno s2)), rb_update_max_fd d s2)"
    using u a1 e1 d by (simp add: rb_sys_fail_def)
  have w2: "d \<noteq> - 1 \<Longrightarrow> Event_Backend_EPoll_io_wait self fiber io evs s = io_wait_registered r d s4"
    using u a1 e1 d a2 by simp
  have w3: "fst (io_wait_yield d s4) = Inr Qnil" if "transfer_outcome s (loop (data s)) = None"
    using that o4 by (simp add: io_wait_yield_def rb_funcall_transfer_def Let_def)
  show "trace s2 = trace s @ [Epoll_ctl_add (descriptor (data s)) fd (make_event msk fiber), Dup fd]
   \<and> (d = - 1 \<longrightarrow>
        Event_Backend_EPoll_io_wait self fiber io evs s
          = (Inl (SystemCallFailure ''dup'' (errno s2)), rb_update_max_fd d s2))
   \<and> (d \<noteq> - 1 \<longrightarrow>
        trace s4 = trace s2 @ [Epoll_ctl_add (descriptor (data s)) d (make_event msk fiber)]
      \<and> (r = - 1 \<longrightarrow>
           Event_Backend_EPoll_io_wait self fiber io evs s
             = (Inl (SystemCallFailure ''epoll_ctl'' (errno s4)), s4))
      \<and> (r \<noteq> - 1 \<longrightarrow>
           Event_Backend_EPoll_io_wait self fiber io evs s = io_wait_yield d s4)
      \<and> (r \<noteq> - 1 \<and> transfer_outcome s (loop (data s)) = None \<longrightarrow>
           fst (Event_Backend_EPoll_io_wait self fiber io evs s) = Inr Qnil))"
    using t1 t2 t4 w1 w2 w3 by (simp add: io_wait_registered_def rb_sys_fail_def)
qed

text \<open>
  The amended C5 at the second wait on the socket: the first add is refused as already
  present, the duplicate is descriptor 5, and the call returns nil.
\<close>

theorem io_wait_conflict_recovery_witness:
  "rb_funcall_fileno (RObject 4) after_first_wait = Inr (RInteger 4)
   \<and> NUM2INT (RInteger 4) = Inr 4
   \<and> fst (epoll_ctl_ADD 3 4 (make_event 4 (RObject 12)) after_first_wait) = - 1
   \<and> errno (snd (epoll_ctl_ADD 3 4 (make_event 4 (RObject 12)) after_first_wait)) = EEXIST
   \<and> fst (dup 4 (snd (epoll_ctl_ADD 3 4 (make_event 4 (RObject 12)) after_first_wait))) = 5
   \<and> transfer_outcome after_first_wait (loop (data after_first_wait)) = None
   \<and> fst (Event_Backend_EPoll_io_wait (RObject 100) (RObject 12) (RObject 4) (RInteger 4)
        after_first_wait) = Inr Qnil"
proof -
  define s1 where "s1 = snd (epoll_ctl_ADD 3 4 (make_event 4 (RObject 12)) after_first_wait)"
  define s2 where "s2 = snd (dup 4 s1)"
  define r where "r = fst (epoll_ctl_ADD 3 5 (make_event 4 (RObject 12)) (rb_update_max_fd 5 s2))"
  define s4 where "s4 = snd (epoll_ctl_ADD 3 5 (make_event 4 (RObject 12)) (rb_update_max_fd 5 s2))"
  have h1: "rb_funcall_fileno (RObject 4) after_first_wait = Inr (RInteger 4)"
    by (simp add: sample_defs sys_defs op_defs const_defs)
  have h2: "NUM2INT (RInteger 4) = Inr 4"
    by (simp add: in_int_range_def)
  have h3: "descriptor (data after_first_wait) = 3"
    by (simp add: sample_defs sys_defs op_defs const_defs)
  have h4: "fst (epoll_ctl_ADD 3 4 (make_event 4 (RObject 12)) after_first_wait) = - 1"
    by (simp add: sample_defs sys_defs op_defs const_defs)
  have h5: "errno s1 = EEXIST"
    unfolding s1_def by (simp add: sample_defs sys_defs op_defs const_defs)
  have h6: "fst (dup 4 s1) = 5"
    unfolding s1_def by (simp add: sample_defs sys_defs op_defs const_defs)
  have h7: "r \<noteq> - 1"
    unfolding r_def s2_def s1_def by (simp add: sample_defs sys_defs op_defs const_defs)
  have h8: "transfer_outcome after_first_wait (loop (data after_first_wait)) = None"
    by (simp add: sample_defs sys_defs op_defs const_defs)
  have a1: "epoll_ctl_ADD (descriptor (data after_first_wait)) 4 (make_event 4 (RObject 12)) after_first_wait
      = (- 1, s1)"
    unfolding h3 s1_def using h4 by (simp add: prod_eq_iff)
  have a2: "dup 4 s1 = (5, s2)"
    unfolding s2_def using h6 by (simp add: prod_eq_iff)
  have a3: "epoll_ctl_ADD (descriptor (data after_first_wait)) 5 (make_event 4 (RObject 12))
      (rb_update_max_fd 5 s2) = (r, s4)"
    unfolding h3 r_def s4_def by simp
  have hyp: "rb_funcall_fileno (RObject 4) after_first_wait = Inr (RInteger 4)
     \<and> NUM2INT (RInteger 4) = Inr 4 \<and> NUM2INT (RInteger 4) = Inr 4
     \<and> epoll_ctl_ADD (descriptor (data after_first_wait)) 4 (make_event 4 (RObject 12))
           after_first_wait = (- 1, s1)
     \<and> errno s1 = EEXIST
     \<and> dup 4 s1 = (5, s2)
     \<and> epoll_ctl_ADD (descriptor (data after_first_wait)) 5 (make_event 4 (RObject 12))
           (rb_update_max_fd 5 s2) = (r, s4)"
    by (intro conjI h1 h2 a1 h5 a2 a3)
  have five: "(5::int) \<noteq> - 1" by simp
  have "fst (Event_Backend_EPoll_io_wait (RObject 100) (RObject 12) (RObject 4) (RInteger 4)
        after_first_wait) = Inr Qnil"
    using io_wait_conflict_recovery [of "RObject 4" after_first_wait "RInteger 4" 4 "RInteger 4" 4
        "RObject 12" s1 5 s2 r s4 "RObject 100", THEN mp, OF hyp] five h7 h8
    by blast
  then show ?thesis
    using h1 h2 h4 h5 h6 h8 unfolding s1_def by simp
qed

section \<open>The interest mask\<close>

lemma seven_bits: "bit (7::int) 0" "bit (7::int) 1" "bit (7::int) 2"
  by simp_all

lemma bit_tests:
  "(msk AND READABLE \<noteq> 0) = bit msk 0"
  "(msk AND PRIORITY \<noteq> 0) = bit msk 1"
  "(msk AND WRITABLE \<noteq> 0) = bit msk 2"
  for msk :: int
  using and_exp_eq_0_iff_not_bit [of msk 0] and_exp_eq_0_iff_not_bit [of msk 1]
    and_exp_eq_0_iff_not_bit [of msk 2]
  by (simp_all add: READABLE_def PRIORITY_def WRITABLE_def)

lemma make_event_flags:
  "events (make_event msk fiber) =
     (if bit msk 0 then EPOLLIN else 0) OR (if bit msk 1 then EPOLLPRI else 0)
     OR (if bit msk 2 then EPOLLOUT else 0) OR EPOLLRDHUP OR EPOLLONESHOT"
  by (simp add: make_event_def bit_tests Let_def or.assoc)

lemma make_event_low_bits: "make_event (msk AND 7) fiber = make_event msk fiber"
proof -
  have "bit (msk AND 7) 0 = bit msk 0" "bit (msk AND 7) 1 = bit msk 1" "bit (msk AND 7) 2 = bit msk 2"
    using seven_bits by (simp_all add: bit_and_iff)
  then show ?thesis
    by (simp add: make_event_def Let_def bit_tests)
qed


lemma io_wait_registered_calls:
  "\<exists>cs. trace (snd (io_wait_registered r d s)) = trace s @ cs
        \<and> (\<forall>a b ev. Epoll_ctl_add a b ev \<notin> set cs)"
  by (simp add: io_wait_registered_def io_wait_yield_def case_prod_unfold split: sum.splits)

lemma io_wait_calls:
  "\<exists>cs. trace (snd (Event_Backend_EPoll_io_wait self fiber io evs s)) = trace s @ cs
        \<and> (\<forall>a b ev. Epoll_ctl_add a b ev \<in> set cs \<longrightarrow>
              (\<exists>m. NUM2INT evs = Inr m \<and> ev = make_event m fiber))"
proof (cases rule: io_wait_cases [of self fiber io evs s])
  case (early e)
  then show ?thesis by simp
next
  case (plain fd msk s1 r)
  have "trace s1 = trace s @ [Epoll_ctl_add (descriptor (data s)) fd (make_event msk fiber)]"
    using epoll_ctl_ADD_frame(5) [of "descriptor (data s)" fd "make_event msk fiber" s] plain(2) by simp
  moreover obtain cs where "trace (snd (io_wait_registered r (- 1) s1)) = trace s1 @ cs"
    "\<forall>a b ev. Epoll_ctl_add a b ev \<notin> set cs"
    using io_wait_registered_calls by blast
  ultimately show ?thesis using plain(1,3) by auto
next
  case (dup_failed fd msk s1 s2)
  have "trace s1 = trace s @ [Epoll_ctl_add (descriptor (data s)) fd (make_event msk fiber)]"
    using epoll_ctl_ADD_frame(5) [of "descriptor (data s)" fd "make_event msk fiber" s] dup_failed(2) by simp
  moreover have "trace s2 = trace s1 @ [Dup fd]"
    using dup_frame(4) [of fd s1] dup_failed(3) by simp
  ultimately show ?thesis using dup_failed(1,4) by auto
next
  case (retried fd msk s1 d s2 r s4)
  have "trace s1 = trace s @ [Epoll_ctl_add (descriptor (data s)) fd (make_event msk fiber)]"
    using epoll_ctl_ADD_frame(5) [of "descriptor (data s)" fd "make_event msk fiber" s] retried(2) by simp
  moreover have "trace s2 = trace s1 @ [Dup fd]"
    using dup_frame(4) [of fd s1] retried(3) by simp
  moreover have "trace s4 = trace s2 @ [Epoll_ctl_add (descriptor (data s)) d (make_event msk fiber)]"
    using epoll_ctl_ADD_frame(5) [of "descriptor (data s)" d "make_event msk fiber" "rb_update_max_fd d s2"]
      retried(5) by simp
  moreover obtain cs where "trace (snd (io_wait_registered r d s4)) = trace s4 @ cs"
    "\<forall>a b ev. Epoll_ctl_add a b ev \<notin> set cs"
    using io_wait_registered_calls by blast
  ultimately show ?thesis using retried(1,6) by auto
qed


lemma io_wait_first_call:
  assumes "rb_funcall_fileno io s = Inr v" "NUM2INT v = Inr fd" "NUM2INT evs = Inr msk"
  shows "\<exists>rest. trace (snd (Event_Backend_EPoll_io_wait self fiber io evs s))
           = trace s @ Epoll_ctl_add (descriptor (data s)) fd (make_event msk fiber) # rest"
proof -
  let ?ev = "make_event msk fiber"
  let ?q = "descriptor (data s)"
  let ?s1 = "snd (epoll_ctl_ADD ?q fd ?ev s)"
  let ?d = "fst (dup fd ?s1)"
  let ?s3 = "rb_update_max_fd ?d (snd (dup fd ?s1))"
  let ?s4 = "snd (epoll_ctl_ADD ?q ?d ?ev ?s3)"
  have reg: "\<exists>cs. trace (snd (io_wait_registered r d s')) = trace s' @ cs" for r d s'
    using io_wait_registered_calls by blast
  have p: "\<exists>rest. trace (snd (io_wait_registered r (- 1) ?s1))
              = trace s @ Epoll_ctl_add ?q fd ?ev # rest" for r
    using reg [of r "- 1" ?s1] by auto
  have r: "\<exists>rest. trace (snd (io_wait_registered r ?d ?s4))
              = trace s @ Epoll_ctl_add ?q fd ?ev # rest" for r
    using reg [of r ?d ?s4] by auto
  have f: "\<exists>rest. trace (rb_update_max_fd (- 1) (snd (dup fd ?s1)))
              = trace s @ Epoll_ctl_add ?q fd ?ev # rest"
    by simp
  note u = io_wait_unfold [OF assms, of self fiber]
  show ?thesis
  proof (cases "fst (epoll_ctl_ADD ?q fd ?ev s) = - 1 \<and> errno ?s1 = EEXIST")
    case False
    have "Event_Backend_EPoll_io_wait self fiber io evs s
        = io_wait_registered (fst (epoll_ctl_ADD ?q fd ?ev s)) (- 1) ?s1"
      unfolding u by (rule if_not_P [OF False])
    then show ?thesis using p by simp
  next
    case c: True
    show ?thesis
    proof (cases "?d = - 1")
      case True
      have "Event_Backend_EPoll_io_wait self fiber io evs s
          = (Inl (rb_sys_fail ''dup'' (rb_update_max_fd (- 1) (snd (dup fd ?s1)))),
             rb_update_max_fd (- 1) (snd (dup fd ?s1)))"
        unfolding u by (simp only: if_P [OF c] if_P [OF True])
      then show ?thesis using f by simp
    next
      case False
      have "Event_Backend_EPoll_io_wait self fiber io evs s
          = io_wait_registered (fst (epoll_ctl_ADD ?q ?d ?ev ?s3)) ?d ?s4"
        unfolding u by (simp only: if_P [OF c] if_not_P [OF False])
      then show ?thesis using r by simp
    qed
  qed
qed

text \<open>
  C6. The event flags built from an interest mask are \<^verbatim>\<open>EPOLLIN\<close>, \<^verbatim>\<open>EPOLLPRI\<close> and
  \<^verbatim>\<open>EPOLLOUT\<close> for the bits 0, 1 and 2 of the mask (Readable = 1, Priority = 2,
  Writable = 4), with \<^verbatim>\<open>EPOLLRDHUP\<close> and \<^verbatim>\<open>EPOLLONESHOT\<close> always set; the other bits
  of the mask change nothing, and the empty mask gives these two flags alone. The payload
  is the waiter. Every add that \<^verbatim>\<open>io_wait\<close> makes carries that event, and once the
  descriptor and the mask are converted the first call made is such an add. This holds of
  negative masks as well.
\<close>

theorem io_wait_registers_translated_mask:
  "events (make_event msk fiber) =
       (if bit msk 0 then EPOLLIN else 0) OR (if bit msk 1 then EPOLLPRI else 0)
       OR (if bit msk 2 then EPOLLOUT else 0) OR EPOLLRDHUP OR EPOLLONESHOT
   \<and> data_ptr (make_event msk fiber) = fiber
   \<and> make_event (msk AND 7) fiber = make_event msk fiber
   \<and> events (make_event 0 fiber) = EPOLLRDHUP OR EPOLLONESHOT
   \<and> (\<forall>a b ev. Epoll_ctl_add a b ev
          \<in> set (calls_since s (snd (Event_Backend_EPoll_io_wait self fiber io evs s))) \<longrightarrow>
        (\<exists>m. NUM2INT evs = Inr m \<and> ev = make_event m fiber))
   \<and> (rb_funcall_fileno io s = Inr v \<and> NUM2INT v = Inr fd \<and> NUM2INT evs = Inr msk \<longrightarrow>
        (\<exists>rest. calls_since s (snd (Event_Backend_EPoll_io_wait self fiber io evs s))
           = Epoll_ctl_add (descriptor (data s)) fd (make_event msk fiber) # rest))"
proof (intro conjI allI impI)
  show "events (make_event msk fiber) =
       (if bit msk 0 then EPOLLIN else 0) OR (if bit msk 1 then EPOLLPRI else 0)
       OR (if bit msk 2 then EPOLLOUT else 0) OR EPOLLRDHUP OR EPOLLONESHOT"
    by (rule make_event_flags)
  show "data_ptr (make_event msk fiber) = fiber"
    by (simp add: make_event_def Let_def)
  show "make_event (msk AND 7) fiber = make_event msk fiber"
    by (rule make_event_low_bits)
  show "events (make_event 0 fiber) = EPOLLRDHUP OR EPOLLONESHOT"
    by (simp add: make_event_def Let_def)
next
  fix a b ev
  assume m: "Epoll_ctl_add a b ev
          \<in> set (calls_since s (snd (Event_Backend_EPoll_io_wait self fiber io evs s)))"
  obtain cs where cs: "trace (snd (Event_Backend_EPoll_io_wait self fiber io evs s)) = trace s @ cs"
    "\<forall>a b ev. Epoll_ctl_add a b ev \<in> set cs \<longrightarrow>
              (\<exists>m. NUM2INT evs = Inr m \<and> ev = make_event m fiber)"
    using io_wait_calls by blast
  from cs(1) have "calls_since s (snd (Event_Backend_EPoll_io_wait self fiber io evs s)) = cs"
    by (rule calls_sinceI)
  with m cs(2) show "\<exists>m. NUM2INT evs = Inr m \<and> ev = make_event m fiber"
    by simp
next
  assume "rb_funcall_fileno io s = Inr v \<and> NUM2INT v = Inr fd \<and> NUM2INT evs = Inr msk"
  then obtain rest where "trace (snd (Event_Backend_EPoll_io_wait self fiber io evs s))
           = trace s @ Epoll_ctl_add (descriptor (data s)) fd (make_event msk fiber) # rest"
    using io_wait_first_call by blast
  then show "\<exists>rest. calls_since s (snd (Event_Backend_EPoll_io_wait self fiber io evs s))
           = Epoll_ctl_add (descriptor (data s)) fd (make_event msk fiber) # rest"
    using calls_sinceI by blast
qed

text \<open>
  C6 at the mask 13 (Readable, Writable, and a bit that is ignored), on the socket of
  the running process.
\<close>

theorem io_wait_registers_translated_mask_witness:
  "rb_funcall_fileno (RObject 4) running = Inr (RInteger 4)
   \<and> NUM2INT (RInteger 4) = Inr 4 \<and> NUM2INT (RInteger 13) = Inr 13
   \<and> (\<exists>rest. calls_since running
          (snd (Event_Backend_EPoll_io_wait (RObject 100) (RObject 11) (RObject 4) (RInteger 13) running))
        = Epoll_ctl_add 3 4 \<lparr>events = 0x40002005, data_ptr = RObject 11\<rparr> # rest)"
proof -
  have h: "rb_funcall_fileno (RObject 4) running = Inr (RInteger 4)
     \<and> NUM2INT (RInteger 4) = Inr 4 \<and> NUM2INT (RInteger 13) = Inr 13"
    by (simp add: sample_defs sys_defs const_defs)
  have e: "make_event 13 (RObject 11) = \<lparr>events = 0x40002005, data_ptr = RObject 11\<rparr>"
    by (simp add: make_event_def const_defs)
  have d: "descriptor (data running) = 3"
    by (simp add: sample_defs)
  from io_wait_registers_translated_mask [of 13 "RObject 11" running "RObject 100" "RObject 4"
      "RInteger 13" "RInteger 4" 4]
  have "rb_funcall_fileno (RObject 4) running = Inr (RInteger 4)
     \<and> NUM2INT (RInteger 4) = Inr 4 \<and> NUM2INT (RInteger 13) = Inr 13 \<longrightarrow>
     (\<exists>rest. calls_since running
          (snd (Event_Backend_EPoll_io_wait (RObject 100) (RObject 11) (RObject 4) (RInteger 13) running))
        = Epoll_ctl_add (descriptor (data running)) 4 (make_event 13 (RObject 11)) # rest)"
    by blast
  with h show ?thesis unfolding e d by blast
qed

section \<open>The backend struct\<close>

lemma select_fds: "fds (snd (Event_Backend_EPoll_select self duration s)) = fds s"
  unfolding Event_Backend_EPoll_select_def
  by (auto simp: case_prod_unfold split: sum.splits option.splits)

text \<open>
  C10. \<^verbatim>\<open>io_wait\<close> and \<^verbatim>\<open>select\<close> leave the loop reference and the queue descriptor
  of the backend as they found them, whatever the outcome of the call.
\<close>

theorem io_wait_and_select_keep_backend:
  "loop (data (snd (Event_Backend_EPoll_io_wait self fiber io evs s))) = loop (data s)
   \<and> descriptor (data (snd (Event_Backend_EPoll_io_wait self fiber io evs s))) = descriptor (data s)
   \<and> loop (data (snd (Event_Backend_EPoll_select self duration s))) = loop (data s)
   \<and> descriptor (data (snd (Event_Backend_EPoll_select self duration s))) = descriptor (data s)"
  by (simp add: io_wait_data select_data)

section \<open>The queue handle and teardown\<close>

lemma allocate_handle_valid: "handle_valid (snd (Event_Backend_EPoll_allocate inst s))"
  by (simp add: Event_Backend_EPoll_allocate_def handle_valid_def)

lemma epoll_create_result:
  "fst (epoll_create sz s) = - 1
   \<or> (\<exists>q. map_of (fds (snd (epoll_create sz s))) (fst (epoll_create sz s)) = Some (Queue q))"
  by (auto simp: epoll_create_def entered_def fails_def Let_def split: option.splits)

lemma initialize_handle_valid:
  "handle_valid (snd (Event_Backend_EPoll_initialize self lp s))"
  using epoll_create_result [of 1 "s\<lparr>data := (data s)\<lparr>loop := lp\<rparr>\<rparr>"]
  by (auto simp: handle_valid_iff Event_Backend_EPoll_initialize_def Let_def case_prod_unfold)

lemma io_wait_handle_valid:
  "handle_valid s \<Longrightarrow> handle_valid (snd (Event_Backend_EPoll_io_wait self fiber io evs s))"
  unfolding handle_valid_iff using io_wait_keeps_open [of s "descriptor (data s)"]
  by (auto simp: io_wait_data)

lemma select_handle_valid:
  "handle_valid s \<Longrightarrow> handle_valid (snd (Event_Backend_EPoll_select self duration s))"
  unfolding handle_valid_iff by (simp add: select_data select_fds)

lemma free_calls:
  "calls_since s (Event_Backend_EPoll_Type_free s)
     = (if 0 \<le> descriptor (data s) then [Close (descriptor (data s))] else [])"
  by (simp add: Event_Backend_EPoll_Type_free_def calls_since_def)

lemma free_closes:
  "0 \<le> descriptor (data s) \<Longrightarrow>
   map_of (fds (Event_Backend_EPoll_Type_free s)) (descriptor (data s)) = None"
  by (simp add: Event_Backend_EPoll_Type_free_def close_fds)

lemma free_keeps_others:
  "k \<noteq> descriptor (data s) \<Longrightarrow>
   map_of (fds (Event_Backend_EPoll_Type_free s)) k = map_of (fds s) k"
  by (simp add: Event_Backend_EPoll_Type_free_def close_fds)

text \<open>
  C8. Allocation sets the queue handle to \<open>-1\<close>. After allocation and after
  initialisation the handle is \<open>-1\<close> or a descriptor open on an epoll instance, and
  \<^verbatim>\<open>io_wait\<close> and \<^verbatim>\<open>select\<close> keep it so. Teardown has no failing outcome; it makes
  one call, the \<^verbatim>\<open>close\<close> of the handle, when the handle is not negative, and no call
  at all otherwise. After it the handle is not an open descriptor any more and every
  other descriptor is as before; no waiter is resumed, whatever registrations are left
  in the queue.
\<close>

theorem queue_handle_and_teardown:
  "handle_valid (snd (Event_Backend_EPoll_allocate inst s))
   \<and> descriptor (data (snd (Event_Backend_EPoll_allocate inst s))) = - 1
   \<and> handle_valid (snd (Event_Backend_EPoll_initialize self lp s))
   \<and> (handle_valid s \<longrightarrow> handle_valid (snd (Event_Backend_EPoll_io_wait self fiber io evs s)))
   \<and> (handle_valid s \<longrightarrow> handle_valid (snd (Event_Backend_EPoll_select self duration s)))
   \<and> calls_since s (Event_Backend_EPoll_Type_free s)
       = (if 0 \<le> descriptor (data s) then [Close (descriptor (data s))] else [])
   \<and> (0 \<le> descriptor (data s) \<longrightarrow>
        map_of (fds (Event_Backend_EPoll_Type_free s)) (descriptor (data s)) = None)
   \<and> (\<forall>k. k \<noteq> descriptor (data s) \<longrightarrow>
        map_of (fds (Event_Backend_EPoll_Type_free s)) k = map_of (fds s) k)
   \<and> (\<forall>v. Transfer v \<notin> set (calls_since s (Event_Backend_EPoll_Type_free s)))"
  using allocate_handle_valid [of inst s] initialize_handle_valid [of self lp s]
    io_wait_handle_valid [of s self fiber io evs] select_handle_valid [of s self duration]
    free_closes [of s] free_keeps_others [of _ s]
  by (simp add: free_calls Event_Backend_EPoll_allocate_def)

text \<open>
  C8 at the process after two waits, whose queue (descriptor 3) still holds two
  registrations.
\<close>

theorem queue_handle_and_teardown_witness:
  "handle_valid after_two_waits
   \<and> handle_valid (snd (Event_Backend_EPoll_io_wait (RObject 100) (RObject 13) (RObject 4)
        (RInteger 1) after_two_waits))
   \<and> handle_valid (snd (Event_Backend_EPoll_select (RObject 100) (RInteger 0) after_two_waits))
   \<and> 0 \<le> descriptor (data after_two_waits)
   \<and> interest after_two_waits \<noteq> []
   \<and> calls_since after_two_waits (Event_Backend_EPoll_Type_free after_two_waits) = [Close 3]
   \<and> map_of (fds (Event_Backend_EPoll_Type_free after_two_waits)) 3 = None
   \<and> map_of (fds (Event_Backend_EPoll_Type_free after_two_waits)) 4 = Some (Stream 3)"
proof -
  have d: "descriptor (data after_two_waits) = 3" "map_of (fds after_two_waits) 4 = Some (Stream 3)"
    "interest after_two_waits \<noteq> []" "map_of (fds after_two_waits) 3 = Some (Queue 0)"
    by (simp_all add: sample_defs sys_defs op_defs const_defs)
  then have h: "handle_valid after_two_waits"
    by (simp add: handle_valid_def)
  show ?thesis
    using queue_handle_and_teardown [of "RObject 100" after_two_waits "RObject 100" Qnil
        "RObject 13" "RObject 4" "RInteger 1" "RInteger 0"] h d
    by simp
qed

section \<open>The wait and dispatch loop\<close>

text \<open>
  C4. When \<^verbatim>\<open>select\<close> returns normally, the handle is an open queue; the value
  returned is the number of entries delivered, which are the first entries ready on the
  queue, 1024 at most; the calls made are the one \<^verbatim>\<open>epoll_wait\<close>, with capacity 1024,
  then one \<^verbatim>\<open>transfer\<close> to the waiter of each delivered entry, in the order of
  delivery; the entries beyond the first 1024 stay ready. With nothing ready and a
  timeout that is not negative, the call returns 0 after the \<^verbatim>\<open>epoll_wait\<close> alone.
\<close>

theorem select_resumes_delivered:
  "(Event_Backend_EPoll_select self duration s = (Inr v, s') \<longrightarrow>
      (\<exists>q t. make_timeout duration = Inr t
         \<and> map_of (fds s) (descriptor (data s)) = Some (Queue q)
         \<and> v = RInteger (int (length (take 1024 (ready s q))))
         \<and> length (take 1024 (ready s q)) \<le> 1024
         \<and> calls_since s s'
             = Epoll_wait (descriptor (data s)) 1024 (sint t)
               # map (Transfer \<circ> data_ptr) (take 1024 (ready s q))
         \<and> ready s' q = drop 1024 (ready s q)))
   \<and> (make_timeout duration = Inr t \<and> 0 \<le> sint t \<and> injected s = None
        \<and> map_of (fds s) (descriptor (data s)) = Some (Queue q) \<and> ready s q = [] \<longrightarrow>
        fst (Event_Backend_EPoll_select self duration s) = Inr (RInteger 0)
      \<and> calls_since s (snd (Event_Backend_EPoll_select self duration s))
          = [Epoll_wait (descriptor (data s)) 1024 (sint t)])"
proof (intro conjI impI)
  assume a: "Event_Backend_EPoll_select self duration s = (Inr v, s')"
  then obtain t where t: "make_timeout duration = Inr t"
    by (cases "make_timeout duration") (simp_all add: Event_Backend_EPoll_select_def)
  let ?w = "epoll_wait (descriptor (data s)) EPOLL_MAX_EVENTS t s"
  obtain c filled where w: "fst ?w = Some (c, filled)"
    using a t by (cases "fst ?w") (auto simp: Event_Backend_EPoll_select_def case_prod_unfold)
  have c: "c \<noteq> - 1"
    using a t w by (auto simp: Event_Backend_EPoll_select_def case_prod_unfold)
  obtain q where q: "map_of (fds s) (descriptor (data s)) = Some (Queue q)"
    "filled = take (nat EPOLL_MAX_EVENTS) (ready s q)" "c = int (length filled)"
    "ready (snd ?w) q = drop (nat EPOLL_MAX_EVENTS) (ready s q)"
    using epoll_wait_delivers [OF w c] by blast
  have tk: "take (nat c) filled = filled" using q(3) by simp
  have r: "fst (resume_each filled (snd ?w)) = Inr ()" "s' = snd (resume_each filled (snd ?w))"
    "v = INT2NUM c"
    using a t w c tk
    by (auto simp: Event_Backend_EPoll_select_def case_prod_unfold split: sum.splits)
  have tr: "trace s' = trace s @ Epoll_wait (descriptor (data s)) EPOLL_MAX_EVENTS (sint t)
      # map (Transfer \<circ> data_ptr) filled"
    using resume_each_trace [OF r(1)] r(2) by simp
  have n: "nat EPOLL_MAX_EVENTS = 1024" by (simp add: EPOLL_MAX_EVENTS_def)
  have "ready s' q = drop 1024 (ready s q)"
    using r(2) q(4) n by simp
  moreover have "calls_since s s' = Epoll_wait (descriptor (data s)) 1024 (sint t)
               # map (Transfer \<circ> data_ptr) (take 1024 (ready s q))"
    using calls_sinceI [OF tr] q(2) n by (simp add: EPOLL_MAX_EVENTS_def)
  moreover have "v = RInteger (int (length (take 1024 (ready s q))))"
    using r(3) q(2,3) n by (simp add: INT2NUM_def)
  ultimately show "\<exists>q t. make_timeout duration = Inr t
         \<and> map_of (fds s) (descriptor (data s)) = Some (Queue q)
         \<and> v = RInteger (int (length (take 1024 (ready s q))))
         \<and> length (take 1024 (ready s q)) \<le> 1024
         \<and> calls_since s s'
             = Epoll_wait (descriptor (data s)) 1024 (sint t)
               # map (Transfer \<circ> data_ptr) (take 1024 (ready s q))
         \<and> ready s' q = drop 1024 (ready s q)"
    using t q(1) by simp
next
  assume a: "make_timeout duration = Inr t \<and> 0 \<le> sint t \<and> injected s = None
        \<and> map_of (fds s) (descriptor (data s)) = Some (Queue q) \<and> ready s q = []"
  let ?w = "epoll_wait (descriptor (data s)) EPOLL_MAX_EVENTS t s"
  have w: "fst ?w = Some (0, [])"
    using a by (intro epoll_wait_timeout [of s _ q]) (simp_all add: EPOLL_MAX_EVENTS_def)
  have e: "Event_Backend_EPoll_select self duration s = (Inr (RInteger 0), snd ?w)"
    using a w by (simp add: Event_Backend_EPoll_select_def case_prod_unfold INT2NUM_def)
  show "fst (Event_Backend_EPoll_select self duration s) = Inr (RInteger 0)"
    using e by simp
  show "calls_since s (snd (Event_Backend_EPoll_select self duration s))
          = [Epoll_wait (descriptor (data s)) 1024 (sint t)]"
    unfolding e by (simp add: calls_since_def EPOLL_MAX_EVENTS_def)
qed


text \<open>
  C4 at the process with two entries ready and a timeout of one unit, and at the process
  with nothing ready and a zero timeout.
\<close>

theorem select_resumes_delivered_witness:
  "fst (Event_Backend_EPoll_select (RObject 100) (RInteger 1) two_ready) = Inr (RInteger 2)
   \<and> calls_since two_ready (snd (Event_Backend_EPoll_select (RObject 100) (RInteger 1) two_ready))
       = [Epoll_wait 3 1024 1000, Transfer (RObject 11), Transfer (RObject 12)]
   \<and> make_timeout (RInteger 0) = Inr 0 \<and> (0::int) \<le> sint (0 :: 32 word)
   \<and> injected running = None
   \<and> map_of (fds running) (descriptor (data running)) = Some (Queue 0)
   \<and> ready running 0 = []
   \<and> fst (Event_Backend_EPoll_select (RObject 100) (RInteger 0) running) = Inr (RInteger 0)
   \<and> calls_since running (snd (Event_Backend_EPoll_select (RObject 100) (RInteger 0) running))
       = [Epoll_wait 3 1024 0]"
proof -
  let ?s' = "snd (Event_Backend_EPoll_select (RObject 100) (RInteger 1) two_ready)"
  have f: "fst (Event_Backend_EPoll_select (RObject 100) (RInteger 1) two_ready) = Inr (RInteger 2)"
    by (simp add: sample_defs sys_defs op_defs const_defs make_timeout_def INT2NUM_def)
  then have h: "Event_Backend_EPoll_select (RObject 100) (RInteger 1) two_ready = (Inr (RInteger 2), ?s')"
    by (simp add: prod_eq_iff)
  have m: "make_timeout (RInteger 1) = Inr 1000"
    by (simp add: make_timeout_def)
  have d: "descriptor (data two_ready) = 3" "map_of (fds two_ready) 3 = Some (Queue 0)"
    "ready two_ready 0 = [\<lparr>events = EPOLLIN, data_ptr = RObject 11\<rparr>,
                          \<lparr>events = EPOLLOUT, data_ptr = RObject 12\<rparr>]"
    by (simp_all add: sample_defs)
  from select_resumes_delivered [of "RObject 100" "RInteger 1" two_ready "RInteger 2" ?s', THEN conjunct1,
      THEN mp, OF h]
  have c1: "calls_since two_ready ?s'
       = [Epoll_wait 3 1024 1000, Transfer (RObject 11), Transfer (RObject 12)]"
    using m d by auto
  have g: "make_timeout (RInteger 0) = Inr 0 \<and> (0::int) \<le> sint (0 :: 32 word)
      \<and> injected running = None
      \<and> map_of (fds running) (descriptor (data running)) = Some (Queue 0)
      \<and> ready running 0 = []"
    by (simp add: make_timeout_def sample_defs injected_def)
  from select_resumes_delivered [of "RObject 100" "RInteger 0" running _ _ 0 0, THEN conjunct2,
      THEN mp, OF g]
  have c2: "fst (Event_Backend_EPoll_select (RObject 100) (RInteger 0) running) = Inr (RInteger 0)
      \<and> calls_since running (snd (Event_Backend_EPoll_select (RObject 100) (RInteger 0) running))
          = [Epoll_wait 3 1024 0]"
    by (simp add: sample_defs)
  show ?thesis using f c1 g c2 by blast
qed

end
